theory Spec2Isabelle
  imports Main "HOL-Library.Word" "HOL-Library.Sublist"
begin

unbundle bit_operations_syntax

section \<open>Host values, nodes and relationships\<close>

text \<open>
  A Go \<open>interface{}\<close> value is a tagged value: the tag is its dynamic type. The
  constructors below are the dynamic types the type switch of \<open>ConvertGoValueToKuzu\<close>
  tells apart, followed by the kinds its reflection fallback tells apart. Go's \<open>int\<close>
  and \<open>uint\<close> are 64 bits wide; a float is carried as its IEEE bit pattern, since the
  code under study only passes floats on. A \<open>map[string]interface{}\<close> is the list
  of its entries in the order a \<open>range\<close> loop visits them.
\<close>

record goTime =
  t_year :: int
  t_month :: nat
  t_day :: nat
  t_hour :: nat
  t_minute :: nat
  t_second :: nat
  t_nanosecond :: nat
  t_zoneOffset :: int

datatype goValue =
    VNil
  | VString string
  | VBool bool
  | VInt "64 word"
  | VInt8 "8 word"
  | VInt16 "16 word"
  | VInt32 "32 word"
  | VInt64 "64 word"
  | VUint "64 word"
  | VUint8 "8 word"
  | VUint16 "16 word"
  | VUint32 "32 word"
  | VUint64 "64 word"
  | VFloat32 "32 word"
  | VFloat64 "64 word"
  | VTime goTime
  | VSlice "goValue list"
  | VMap "(string \<times> goValue) list"
  | VPtr "goValue option"
  | VStruct "(string \<times> string \<times> bool \<times> goValue) list"
  | VArray "goValue list"
  | VOther string

text \<open>
  \<open>graphs.Node\<close> and \<open>graphs.Relationship\<close>, with the fields the import code reads:
  \<open>ID\<close>, \<open>Type\<close>, \<open>Properties\<close>; \<open>Source\<close>, \<open>Target\<close>, \<open>Type\<close>, \<open>Properties\<close>.
\<close>

record Node =
  node_ID :: string
  node_Type :: string
  node_Properties :: "(string \<times> goValue) list"

record Relationship =
  rel_Source :: Node
  rel_Target :: Node
  rel_Type :: string
  rel_Properties :: "(string \<times> goValue) list"

section \<open>Deduplication\<close>

text \<open>
  \<open>DeduplicateNodes\<close>: the loop over \<open>nodes\<close> with the \<open>seen\<close> map (a
  \<open>map[string]bool\<close>, whose missing keys read as \<open>false\<close>) and the \<open>result\<close>
  slice it appends to.
\<close>

fun DeduplicateNodes_loop :: "(string \<Rightarrow> bool) \<Rightarrow> Node list \<Rightarrow> Node list \<Rightarrow> Node list" where
  "DeduplicateNodes_loop seen result [] = result"
| "DeduplicateNodes_loop seen result (node # nodes) =
     (if \<not> seen (node_ID node)
      then DeduplicateNodes_loop (seen(node_ID node := True)) (result @ [node]) nodes
      else DeduplicateNodes_loop seen result nodes)"

definition DeduplicateNodes :: "Node list \<Rightarrow> Node list" where
  "DeduplicateNodes nodes = DeduplicateNodes_loop (\<lambda>_. False) [] nodes"




text \<open>
  The specification both loops are compared with: the elements of a list whose key does
  not occur at an earlier position, in the order of the list.
\<close>

definition firstOccurrences :: "('a \<Rightarrow> 'k) \<Rightarrow> 'a list \<Rightarrow> 'a list" where
  "firstOccurrences key xs =
     map snd (filter (\<lambda>(i, x). key x \<notin> key ` set (take i xs)) (enumerate 0 xs))"



section \<open>The engine, the store handle and errors\<close>

text \<open>
  A query text is represented by its template and the identifiers substituted into it
  (every query of the code is a fixed template filled by \<open>fmt.Sprintf\<close>), its
  parameter map by the values bound in it. \<open>QText\<close> is a text supplied by a caller.
\<close>

datatype query =
    QBeginReadOnly
  | QBegin
  | QCommit
  | QRollback
  | QCreateNodeTable string
  | QCreateChunkTable
  | QCreateRelTable string string string
  | QCreateMentionsTable
  | QMergeNode string
  | QMergeNodeBatch string bool
  | QMergeRel string string string
  | QMergeRelBatch string string string bool
  | QMentionsBatch string
  | QText string

datatype params =
    PNone
  | PNode string string "string list" "string list"
  | PNodeBatch "(string \<times> string \<times> (string \<times> goValue) list) list"
  | PRel string string "string list" "string list"
  | PRelBatch "(string \<times> string \<times> (string \<times> goValue) list) list"
  | PMentions string "string list"

type_synonym statement = "query \<times> params"

text \<open>
  The engine is outside the repository. It is a parameter: given the statements it
  has executed so far and the next statement, it says whether that statement succeeds.
\<close>

type_synonym engine = "statement list \<Rightarrow> statement \<Rightarrow> bool"

datatype TransactionState =
    TransactionIdle
  | TransactionActive
  | TransactionCommitted
  | TransactionRolledBack
  | TransactionFailed

datatype error =
    ErrConnectionNotInitialized
  | ErrQueryExecutionFailed
  | ErrContext
  | ErrPanic
  | ErrTxNotActive TransactionState
  | ErrTxCannotRollback TransactionState
  | ErrQueryFailedInTx error
  | ErrFailedToBegin error
  | ErrFunctionFailed error error
  | ErrFailedToCommit error
  | ErrCaller string
  | ErrEngine
  | ErrLibrary
  | ErrMsg string
  | ErrWrap string error

text \<open>
  The \<open>Kuzu\<close> struct: \<open>connected\<close> stands for \<open>connection != nil\<close> (the code sets
  and clears \<open>connection\<close> and \<open>database\<close> together), \<open>nodeTables\<close> and
  \<open>relTables\<close> are the caches of created tables, and \<open>executed\<close> lists the
  statements handed to the engine, oldest first.
\<close>

record Kuzu =
  connected :: bool
  nodeTables :: "string \<Rightarrow> bool"
  relTables :: "string \<Rightarrow> bool"
  executed :: "statement list"

text \<open>
  \<open>connection.Query\<close> and \<open>connection.Execute\<close>: the statement reaches the engine
  and succeeds or fails there.
\<close>

definition engineRun :: "engine \<Rightarrow> Kuzu \<Rightarrow> query \<Rightarrow> params \<Rightarrow> bool \<times> Kuzu" where
  "engineRun eng k q p = (eng (executed k) (q, p), k\<lparr>executed := executed k @ [(q, p)]\<rparr>)"

text \<open>
  \<open>Kuzu.Query\<close>. \<open>ctxDone\<close> says whether the context is cancelled when the call
  checks it. A failure of the engine stands for every error after the statement was
  handed over.
\<close>

definition Query :: "engine \<Rightarrow> bool \<Rightarrow> Kuzu \<Rightarrow> query \<Rightarrow> params \<Rightarrow> (error + unit) \<times> Kuzu" where
  "Query eng ctxDone k q p =
     (if \<not> connected k then (Inl ErrConnectionNotInitialized, k)
      else if ctxDone then (Inl ErrContext, k)
      else (case engineRun eng k q p of
              (True, k') \<Rightarrow> (Inr (), k')
            | (False, k') \<Rightarrow> (Inl ErrQueryExecutionFailed, k')))"

section \<open>Transactions\<close>

record Transaction =
  tx_id :: string
  tx_state :: TransactionState
  tx_ctxDone :: bool
  tx_operations :: "query list"
  tx_startedAt :: int

record TransactionConfig =
  cfg_ReadOnly :: bool
  cfg_Timeout :: int
  cfg_Retries :: int

type_synonym TransactionOption = "TransactionConfig \<Rightarrow> TransactionConfig"

definition WithReadOnly :: "bool \<Rightarrow> TransactionOption" where
  "WithReadOnly readOnly config = config\<lparr>cfg_ReadOnly := readOnly\<rparr>"

definition WithTransactionTimeout :: "int \<Rightarrow> TransactionOption" where
  "WithTransactionTimeout timeout config = config\<lparr>cfg_Timeout := timeout\<rparr>"

definition WithRetries :: "int \<Rightarrow> TransactionOption" where
  "WithRetries retries config = config\<lparr>cfg_Retries := retries\<rparr>"

definition getCurrentTimestamp :: int where
  "getCurrentTimestamp = 1000"

text \<open>
  \<open>BeginTransaction\<close>. The transaction's context is cancelled when the caller's is;
  the identifier is \<open>"tx_"\<close> followed by the placeholder timestamp. The error of the
  begin statement is ignored, as in the code.
\<close>

definition BeginTransaction ::
  "engine \<Rightarrow> bool \<Rightarrow> Kuzu \<Rightarrow> TransactionOption list \<Rightarrow> error + (Kuzu \<times> Transaction)" where
  "BeginTransaction eng ctxDone k opts =
     (if \<not> connected k then Inl ErrConnectionNotInitialized
      else
        let config = fold (\<lambda>opt c. opt c) opts
                       \<lparr>cfg_ReadOnly = False, cfg_Timeout = 30000, cfg_Retries = 0\<rparr>;
            tx = \<lparr>tx_id = ''tx_1000'', tx_state = TransactionActive, tx_ctxDone = ctxDone,
                  tx_operations = [], tx_startedAt = getCurrentTimestamp\<rparr>;
            k' = snd (Query eng ctxDone k (if cfg_ReadOnly config then QBeginReadOnly else QBegin) PNone)
        in Inr (k', tx))"

definition GetState :: "Transaction \<Rightarrow> TransactionState" where
  "GetState tx = tx_state tx"

definition IsActive :: "Transaction \<Rightarrow> bool" where
  "IsActive tx = (GetState tx = TransactionActive)"

text \<open>\<open>Transaction.Query\<close>: the handle shares the store, so both are passed and returned.\<close>

definition tx_Query ::
  "engine \<Rightarrow> Kuzu \<times> Transaction \<Rightarrow> query \<Rightarrow> params \<Rightarrow> (error + unit) \<times> Kuzu \<times> Transaction" where
  "tx_Query eng kt q p =
     (case kt of (k, tx) \<Rightarrow>
        if \<not> IsActive tx then (Inl (ErrTxNotActive (GetState tx)), k, tx)
        else if tx_ctxDone tx then (Inl ErrContext, k, tx\<lparr>tx_state := TransactionFailed\<rparr>)
        else
          let tx1 = tx\<lparr>tx_operations := tx_operations tx @ [q]\<rparr> in
          (case Query eng (tx_ctxDone tx1) k q p of
             (Inl err, k') \<Rightarrow> (Inl (ErrQueryFailedInTx err), k', tx1\<lparr>tx_state := TransactionFailed\<rparr>)
           | (Inr r, k') \<Rightarrow> (Inr r, k', tx1)))"

text \<open>
  \<open>Commit\<close> and \<open>Rollback\<close>: the error of the statement is ignored; \<open>cancelFunc\<close>
  cancels the transaction's context.
\<close>

definition Commit :: "engine \<Rightarrow> Kuzu \<times> Transaction \<Rightarrow> error option \<times> Kuzu \<times> Transaction" where
  "Commit eng kt =
     (case kt of (k, tx) \<Rightarrow>
        if \<not> IsActive tx then (Some (ErrTxNotActive (GetState tx)), k, tx)
        else
          let k' = snd (Query eng (tx_ctxDone tx) k QCommit PNone)
          in (None, k', tx\<lparr>tx_state := TransactionCommitted, tx_ctxDone := True\<rparr>))"

definition Rollback :: "engine \<Rightarrow> Kuzu \<times> Transaction \<Rightarrow> error option \<times> Kuzu \<times> Transaction" where
  "Rollback eng kt =
     (case kt of (k, tx) \<Rightarrow>
        let currentState = GetState tx in
        if currentState \<noteq> TransactionActive \<and> currentState \<noteq> TransactionFailed
        then (Some (ErrTxCannotRollback currentState), k, tx)
        else
          let k' = snd (Query eng (tx_ctxDone tx) k QRollback PNone)
          in (None, k', tx\<lparr>tx_state := TransactionRolledBack, tx_ctxDone := True\<rparr>))"

definition Close :: "engine \<Rightarrow> Kuzu \<times> Transaction \<Rightarrow> error option \<times> Kuzu \<times> Transaction" where
  "Close eng kt =
     (case kt of (k, tx) \<Rightarrow>
        (case GetState tx of
           TransactionActive \<Rightarrow> Rollback eng (k, tx)
         | TransactionFailed \<Rightarrow> Rollback eng (k, tx)
         | TransactionCommitted \<Rightarrow> (None, k, tx)
         | TransactionRolledBack \<Rightarrow> (None, k, tx)
         | TransactionIdle \<Rightarrow> (None, k, tx\<lparr>tx_ctxDone := True\<rparr>)))"

text \<open>
  \<open>RunInTransaction\<close>. The caller's function \<open>fn\<close> may use the handle and the store in
  any way: it maps both to its error, if any, and their new values. The deferred
  \<open>tx.Close()\<close> runs last on every path after a successful begin and its error is
  dropped. The result is the returned error, the store and the handle (if one was made).
\<close>

definition RunInTransaction ::
  "engine \<Rightarrow> bool \<Rightarrow> Kuzu \<Rightarrow> (Kuzu \<times> Transaction \<Rightarrow> error option \<times> Kuzu \<times> Transaction) \<Rightarrow>
   TransactionOption list \<Rightarrow> error option \<times> Kuzu \<times> Transaction option" where
  "RunInTransaction eng ctxDone k fn opts =
     (case BeginTransaction eng ctxDone k opts of
        Inl err \<Rightarrow> (Some (ErrFailedToBegin err), k, None)
      | Inr kt \<Rightarrow>
          (case fn kt of
             (Some err, kt1) \<Rightarrow>
               (case Rollback eng kt1 of
                  (Some rollbackErr, kt2) \<Rightarrow>
                    (case Close eng kt2 of (_, k3, tx3) \<Rightarrow>
                       (Some (ErrFunctionFailed err rollbackErr), k3, Some tx3))
                | (None, kt2) \<Rightarrow>
                    (case Close eng kt2 of (_, k3, tx3) \<Rightarrow> (Some err, k3, Some tx3)))
           | (None, kt1) \<Rightarrow>
               (case Commit eng kt1 of
                  (Some err, kt2) \<Rightarrow>
                    (case Close eng kt2 of (_, k3, tx3) \<Rightarrow>
                       (Some (ErrFailedToCommit err), k3, Some tx3))
                | (None, kt2) \<Rightarrow>
                    (case Close eng kt2 of (_, k3, tx3) \<Rightarrow> (None, k3, Some tx3)))))"

section \<open>Sample values\<close>

text \<open>A connected store with empty caches and an active handle, for the examples below.\<close>

definition k0 :: Kuzu where
  "k0 = \<lparr>connected = True, nodeTables = (\<lambda>_. False), relTables = (\<lambda>_. False), executed = []\<rparr>"

definition tx0 :: Transaction where
  "tx0 = \<lparr>tx_id = ''tx_1000'', tx_state = TransactionActive, tx_ctxDone = False,
          tx_operations = [], tx_startedAt = 1000\<rparr>"

section \<open>Schema snapshot and its version\<close>

text \<open>
  A Go string is a sequence of bytes, and a \<open>range\<close> loop over it yields the runes
  of its UTF-8 decoding: a byte that does not start a well-formed sequence yields the
  replacement rune 65533 and the loop moves on by one byte.
\<close>

definition cont :: "char \<Rightarrow> bool" where
  "cont b = (128 \<le> (of_char b :: nat) \<and> (of_char b :: nat) \<le> 191)"

definition second_ok :: "nat \<Rightarrow> nat \<Rightarrow> bool" where
  "second_ok c0 c1 =
     (if c0 = 224 then 160 \<le> c1 \<and> c1 \<le> 191
      else if c0 = 237 then 128 \<le> c1 \<and> c1 \<le> 159
      else if c0 = 240 then 144 \<le> c1 \<and> c1 \<le> 191
      else if c0 = 244 then 128 \<le> c1 \<and> c1 \<le> 143
      else 128 \<le> c1 \<and> c1 \<le> 191)"

fun runes :: "string \<Rightarrow> nat list" where
  "runes [] = []"
| "runes (b0 # bs) =
     (let c0 = (of_char b0 :: nat) in
      if c0 < 128 then c0 # runes bs
      else if c0 < 194 \<or> 244 < c0 then 65533 # runes bs
      else (case bs of
              [] \<Rightarrow> 65533 # runes bs
            | b1 # bs1 \<Rightarrow>
                let c1 = (of_char b1 :: nat) in
                if \<not> second_ok c0 c1 then 65533 # runes bs
                else if c0 < 224 then (c0 mod 32 * 64 + c1 mod 64) # runes bs1
                else (case bs1 of
                        [] \<Rightarrow> 65533 # runes bs
                      | b2 # bs2 \<Rightarrow>
                          let c2 = (of_char b2 :: nat) in
                          if \<not> cont b2 then 65533 # runes bs
                          else if c0 < 240
                          then (c0 mod 16 * 4096 + c1 mod 64 * 64 + c2 mod 64) # runes bs2
                          else (case bs2 of
                                  [] \<Rightarrow> 65533 # runes bs
                                | b3 # bs3 \<Rightarrow>
                                    let c3 = (of_char b3 :: nat) in
                                    if \<not> cont b3 then 65533 # runes bs
                                    else (c0 mod 8 * 262144 + c1 mod 64 * 4096 +
                                          c2 mod 64 * 64 + c3 mod 64) # runes bs3))))"

text \<open>\<open>%d\<close> of \<open>fmt.Sprintf\<close>: the decimal digits, with a minus sign when negative.\<close>

function showNat :: "nat \<Rightarrow> string" where
  "showNat n =
     (if n < 10 then [''0123456789'' ! n]
      else showNat (n div 10) @ [''0123456789'' ! (n mod 10)])"
  by pat_completeness auto
termination
  by (relation "measure (\<lambda>n. n)") auto

definition showInt :: "int \<Rightarrow> string" where
  "showInt i = (if i < 0 then ''-'' @ showNat (nat (- i)) else showNat (nat i))"

text \<open>
  \<open>GetSchemaVersion\<close>. Its argument is \<open>k.structuredSchema\<close> as the \<open>range\<close> loop
  visits it: the entries of the map in the order of that visit, which Go leaves
  unspecified and varies from one loop to the next. \<open>hash\<close> is a Go \<open>int\<close>, 64 bits
  with wrap-around, printed as a signed number.
\<close>

fun GetSchemaVersion_loop :: "64 word \<Rightarrow> (string \<times> goValue) list \<Rightarrow> 64 word" where
  "GetSchemaVersion_loop hash [] = hash"
| "GetSchemaVersion_loop hash ((key, val) # rest) =
     (let hash1 = hash * 31 + of_nat (length key) in
      GetSchemaVersion_loop
        (case val of
           VString str \<Rightarrow> fold (\<lambda>char h. h * 31 + of_nat char) (runes str) hash1
         | _ \<Rightarrow> hash1)
        rest)"

definition GetSchemaVersion :: "(string \<times> goValue) list \<Rightarrow> string" where
  "GetSchemaVersion structuredSchema = ''v'' @ showInt (sint (GetSchemaVersion_loop 0 structuredSchema))"

text \<open>
  \<open>updateStructuredSchema\<close>, the only writer of a non-empty \<open>k.structuredSchema\<close>:
  a map with the three keys below. Its argument \<open>nodeTables\<close> maps a table name to
  its properties (name and type), \<open>relTables\<close> holds name, source type and target type;
  both are given as the lists of their entries as visited.
\<close>

definition updateStructuredSchema ::
  "(string \<times> (string \<times> string) list) list \<Rightarrow> (string \<times> string \<times> string \<times> string) list \<Rightarrow>
   (string \<times> goValue) list" where
  "updateStructuredSchema nodeTbls relTbls =
     (let nodeTypes =
            map (\<lambda>(tableName, properties).
                   VMap [(''label'', VString tableName),
                         (''properties'',
                          VArray (map (\<lambda>(name, type).
                                         VMap [(''name'', VString name), (''type'', VString type)])
                                      properties))])
                nodeTbls;
          relTypes =
            map (\<lambda>(key, name, sourceType, targetType).
                   VMap [(''name'', VString name), (''source_type'', VString sourceType),
                         (''target_type'', VString targetType)])
                relTbls
      in [(''node_types'', VArray nodeTypes),
          (''relationship_types'', VArray relTypes),
          (''total_tables'', VInt (of_nat (length nodeTbls + length relTbls)))])"

section \<open>Type conversion\<close>

text \<open>
  The functions of Go's standard library and the float conversions of the language
  that the converter calls are parameters: \<open>fmt.Sprintf\<close> with \<open>%v\<close> and \<open>%T\<close>,
  \<open>time.Parse\<close> and \<open>Time.Format\<close> (by layout), \<open>json.Unmarshal\<close> into an
  \<open>interface{}\<close>, a \<open>[]interface{}\<close> and a \<open>map[string]interface{}\<close>, the parsers
  of \<open>strconv\<close> (\<open>ParseFloat\<close> by bit size), and the conversions between floats
  and integers. Every theorem holds for every such library.
\<close>

record golib =
  fmtV :: "goValue \<Rightarrow> string"
  fmtT :: "goValue \<Rightarrow> string"
  timeParse :: "string \<Rightarrow> string \<Rightarrow> goTime option"
  timeFormat :: "string \<Rightarrow> goTime \<Rightarrow> string"
  jsonUnmarshal :: "string \<Rightarrow> goValue option"
  jsonUnmarshalSlice :: "string \<Rightarrow> goValue list option"
  jsonUnmarshalMap :: "string \<Rightarrow> (string \<times> goValue) list option"
  parseBool :: "string \<Rightarrow> bool option"
  parseInt :: "string \<Rightarrow> 64 word option"
  parseUint :: "string \<Rightarrow> 64 word option"
  parseFloat :: "nat \<Rightarrow> string \<Rightarrow> 64 word option"
  f64ToInt64 :: "64 word \<Rightarrow> 64 word"
  f64ToUint64 :: "64 word \<Rightarrow> 64 word"
  f64ToF32 :: "64 word \<Rightarrow> 32 word"
  i64ToF32 :: "64 word \<Rightarrow> 32 word"
  i64ToF64 :: "64 word \<Rightarrow> 64 word"

datatype KuzuDataType =
    KuzuINT64 | KuzuINT32 | KuzuINT16 | KuzuINT8
  | KuzuUINT64 | KuzuUINT32 | KuzuUINT16 | KuzuUINT8
  | KuzuDOUBLE | KuzuFLOAT | KuzuSTRING | KuzuBOOL
  | KuzuDATE | KuzuTIMESTAMP | KuzuINTERVAL
  | KuzuLIST | KuzuSTRUCT | KuzuMAP | KuzuUNION
  | KuzuNODE | KuzuRELATIONSHIP | KuzuPATH

fun typeString :: "KuzuDataType \<Rightarrow> string" where
  "typeString KuzuINT64 = ''INT64''"
| "typeString KuzuINT32 = ''INT32''"
| "typeString KuzuINT16 = ''INT16''"
| "typeString KuzuINT8 = ''INT8''"
| "typeString KuzuUINT64 = ''UINT64''"
| "typeString KuzuUINT32 = ''UINT32''"
| "typeString KuzuUINT16 = ''UINT16''"
| "typeString KuzuUINT8 = ''UINT8''"
| "typeString KuzuDOUBLE = ''DOUBLE''"
| "typeString KuzuFLOAT = ''FLOAT''"
| "typeString KuzuSTRING = ''STRING''"
| "typeString KuzuBOOL = ''BOOL''"
| "typeString KuzuDATE = ''DATE''"
| "typeString KuzuTIMESTAMP = ''TIMESTAMP''"
| "typeString KuzuINTERVAL = ''INTERVAL''"
| "typeString KuzuLIST = ''LIST''"
| "typeString KuzuSTRUCT = ''STRUCT''"
| "typeString KuzuMAP = ''MAP''"
| "typeString KuzuUNION = ''UNION''"
| "typeString KuzuNODE = ''NODE''"
| "typeString KuzuRELATIONSHIP = ''RELATIONSHIP''"
| "typeString KuzuPATH = ''PATH''"

record TypeConverter =
  StrictMode :: bool
  DateFormat :: string
  TimestampFormat :: string
  DecimalPrecision :: int

definition NewTypeConverter :: TypeConverter where
  "NewTypeConverter =
     \<lparr>StrictMode = False, DateFormat = ''2006-01-02'',
      TimestampFormat = ''2006-01-02T15:04:05Z07:00'', DecimalPrecision = 15\<rparr>"

text \<open>
  The size of a value: one for each value in it, plus the bytes of each string. A JSON
  text is longer than the size of the value it decodes to, since every value and every
  byte of a decoded string takes at least one byte of the text.
\<close>

fun vsize :: "goValue \<Rightarrow> nat" where
  "vsize (VString s) = length s + 1"
| "vsize (VSlice xs) = sum_list (map vsize xs) + 1"
| "vsize (VMap m) = sum_list (map (\<lambda>e. vsize (snd e)) m) + 1"
| "vsize (VPtr None) = 1"
| "vsize (VPtr (Some v)) = vsize v + 1"
| "vsize (VStruct fs) = sum_list (map (\<lambda>f. vsize (snd (snd (snd f)))) fs) + 1"
| "vsize (VArray xs) = sum_list (map vsize xs) + 1"
| "vsize _ = 1"

text \<open>
  \<open>json.Unmarshal\<close> as \<open>convertString\<close> uses it. A result that is not smaller than
  its text, which the decoder of Go never gives, counts as a failure to decode; this is
  what makes the recursion of \<open>convertString\<close> into the decoded value well-founded.
\<close>

definition jsonDecode :: "golib \<Rightarrow> string \<Rightarrow> goValue option" where
  "jsonDecode lib s =
     (case jsonUnmarshal lib s of
        None \<Rightarrow> None
      | Some obj \<Rightarrow> if vsize obj < vsize (VString s) then Some obj else None)"

definition isDateString :: "golib \<Rightarrow> TypeConverter \<Rightarrow> string \<Rightarrow> bool" where
  "isDateString lib tc s = (timeParse lib (DateFormat tc) s \<noteq> None)"

definition isTimestampString :: "golib \<Rightarrow> TypeConverter \<Rightarrow> string \<Rightarrow> bool" where
  "isTimestampString lib tc s = (timeParse lib (TimestampFormat tc) s \<noteq> None)"

definition isJSONString :: "string \<Rightarrow> bool" where
  "isJSONString s =
     (s \<noteq> [] \<and>
      ((hd s = CHR ''{'' \<and> last s = CHR ''}'') \<or> (hd s = CHR ''['' \<and> last s = CHR '']'')))"

definition convertTime :: "golib \<Rightarrow> TypeConverter \<Rightarrow> goTime \<Rightarrow> goValue \<times> KuzuDataType" where
  "convertTime lib tc t =
     (if t_hour t = 0 \<and> t_minute t = 0 \<and> t_second t = 0 \<and> t_nanosecond t = 0
      then (VString (timeFormat lib (DateFormat tc) t), KuzuDATE)
      else (VString (timeFormat lib (TimestampFormat tc) t), KuzuTIMESTAMP))"

text \<open>\<open>m[key] = value\<close> on a map given by its entries.\<close>

definition mapInsert :: "string \<Rightarrow> 'v \<Rightarrow> (string \<times> 'v) list \<Rightarrow> (string \<times> 'v) list" where
  "mapInsert key v m =
     (if key \<in> fst ` set m then map (\<lambda>e. if fst e = key then (key, v) else e) m
      else m @ [(key, v)])"

text \<open>A text between single quotes, as the error messages print a key.\<close>

definition quoted :: "string \<Rightarrow> string" where
  "quoted s = CHR 0x27 # s @ [CHR 0x27]"

text \<open>The name under which \<open>convertReflect\<close> stores a struct field.\<close>

definition structFieldName :: "string \<Rightarrow> string \<Rightarrow> string" where
  "structFieldName name jsonTag =
     (if jsonTag \<noteq> '''' \<and> jsonTag \<noteq> ''-''
      then (if CHR '','' \<in> set jsonTag then takeWhile (\<lambda>c. c \<noteq> CHR '','') jsonTag else jsonTag)
      else name)"

text \<open>
  \<open>ConvertGoValueToKuzu\<close> with \<open>convertString\<close>, \<open>convertSlice\<close>, \<open>convertMap\<close>
  and \<open>convertReflect\<close>. The three loops carry what the source's loops carry: the
  index and the element type of the first element, and the converted part so far. A
  struct field is its name, its \<open>json\<close> tag, whether it is exported, and its value.
\<close>

function ConvertGoValueToKuzu :: "golib \<Rightarrow> TypeConverter \<Rightarrow> goValue \<Rightarrow> error + goValue \<times> KuzuDataType"
  and convertSlice_loop ::
    "golib \<Rightarrow> TypeConverter \<Rightarrow> nat \<Rightarrow> KuzuDataType option \<Rightarrow> goValue list \<Rightarrow> goValue list \<Rightarrow>
     error + goValue \<times> KuzuDataType"
  and convertMap_loop ::
    "golib \<Rightarrow> TypeConverter \<Rightarrow> (string \<times> goValue) list \<Rightarrow> (string \<times> goValue) list \<Rightarrow>
     error + goValue \<times> KuzuDataType"
  and convertStruct_loop ::
    "golib \<Rightarrow> TypeConverter \<Rightarrow> (string \<times> goValue) list \<Rightarrow> (string \<times> string \<times> bool \<times> goValue) list \<Rightarrow>
     error + goValue \<times> KuzuDataType"
where
  "ConvertGoValueToKuzu lib tc VNil = Inr (VNil, KuzuSTRING)"
| "ConvertGoValueToKuzu lib tc (VString s) =
     (case (if isDateString lib tc s then timeParse lib (DateFormat tc) s else None) of
        Some date \<Rightarrow> Inr (VString (timeFormat lib (DateFormat tc) date), KuzuDATE)
      | None \<Rightarrow>
          (case (if isTimestampString lib tc s then timeParse lib (TimestampFormat tc) s else None) of
             Some timestamp \<Rightarrow>
               Inr (VString (timeFormat lib (TimestampFormat tc) timestamp), KuzuTIMESTAMP)
           | None \<Rightarrow>
               (case (if isJSONString s then jsonDecode lib s else None) of
                  Some obj \<Rightarrow> ConvertGoValueToKuzu lib tc obj
                | None \<Rightarrow> Inr (VString s, KuzuSTRING))))"
| "ConvertGoValueToKuzu lib tc (VBool v) = Inr (VBool v, KuzuBOOL)"
| "ConvertGoValueToKuzu lib tc (VInt v) = Inr (VInt64 v, KuzuINT64)"
| "ConvertGoValueToKuzu lib tc (VInt8 v) = Inr (VInt8 v, KuzuINT8)"
| "ConvertGoValueToKuzu lib tc (VInt16 v) = Inr (VInt16 v, KuzuINT16)"
| "ConvertGoValueToKuzu lib tc (VInt32 v) = Inr (VInt32 v, KuzuINT32)"
| "ConvertGoValueToKuzu lib tc (VInt64 v) = Inr (VInt64 v, KuzuINT64)"
| "ConvertGoValueToKuzu lib tc (VUint v) = Inr (VUint64 v, KuzuUINT64)"
| "ConvertGoValueToKuzu lib tc (VUint8 v) = Inr (VUint8 v, KuzuUINT8)"
| "ConvertGoValueToKuzu lib tc (VUint16 v) = Inr (VUint16 v, KuzuUINT16)"
| "ConvertGoValueToKuzu lib tc (VUint32 v) = Inr (VUint32 v, KuzuUINT32)"
| "ConvertGoValueToKuzu lib tc (VUint64 v) = Inr (VUint64 v, KuzuUINT64)"
| "ConvertGoValueToKuzu lib tc (VFloat32 v) = Inr (VFloat32 v, KuzuFLOAT)"
| "ConvertGoValueToKuzu lib tc (VFloat64 v) = Inr (VFloat64 v, KuzuDOUBLE)"
| "ConvertGoValueToKuzu lib tc (VTime t) = Inr (convertTime lib tc t)"
| "ConvertGoValueToKuzu lib tc (VSlice elems) =
     (if elems = [] then Inr (VSlice elems, KuzuLIST)
      else convertSlice_loop lib tc 0 None [] elems)"
| "ConvertGoValueToKuzu lib tc (VMap m) = convertMap_loop lib tc [] m"
| "ConvertGoValueToKuzu lib tc (VPtr None) = Inr (VNil, KuzuSTRING)"
| "ConvertGoValueToKuzu lib tc (VPtr (Some v)) = ConvertGoValueToKuzu lib tc v"
| "ConvertGoValueToKuzu lib tc (VStruct flds) = convertStruct_loop lib tc [] flds"
| "ConvertGoValueToKuzu lib tc (VArray items) =
     (if items = [] then Inr (VSlice items, KuzuLIST)
      else convertSlice_loop lib tc 0 None [] items)"
| "ConvertGoValueToKuzu lib tc (VOther x) = Inr (VString (fmtV lib (VOther x)), KuzuSTRING)"
| "convertSlice_loop lib tc i elementType convertedSlice [] = Inr (VSlice convertedSlice, KuzuLIST)"
| "convertSlice_loop lib tc i elementType convertedSlice (item # rest) =
     (case ConvertGoValueToKuzu lib tc item of
        Inl err \<Rightarrow> Inl (ErrWrap (''failed to convert slice element '' @ showNat i) err)
      | Inr (converted, itemType) \<Rightarrow>
          if i = 0
          then convertSlice_loop lib tc (i + 1) (Some itemType) (convertedSlice @ [converted]) rest
          else if elementType \<noteq> Some itemType \<and> StrictMode tc
          then Inl (ErrMsg (''inconsistent types in slice: '' @
                            (case elementType of None \<Rightarrow> '''' | Some t \<Rightarrow> typeString t) @
                            '' vs '' @ typeString itemType))
          else convertSlice_loop lib tc (i + 1) elementType (convertedSlice @ [converted]) rest)"
| "convertMap_loop lib tc convertedMap [] = Inr (VMap convertedMap, KuzuSTRUCT)"
| "convertMap_loop lib tc convertedMap ((key, val) # rest) =
     (case ConvertGoValueToKuzu lib tc val of
        Inl err \<Rightarrow> Inl (ErrWrap (''failed to convert map value for key '' @ quoted key) err)
      | Inr (converted, _) \<Rightarrow> convertMap_loop lib tc (mapInsert key converted convertedMap) rest)"
| "convertStruct_loop lib tc structMap [] = Inr (VMap structMap, KuzuSTRUCT)"
| "convertStruct_loop lib tc structMap ((name, jsonTag, exported, fieldValue) # rest) =
     (if \<not> exported then convertStruct_loop lib tc structMap rest
      else
        (case ConvertGoValueToKuzu lib tc fieldValue of
           Inl err \<Rightarrow>
             Inl (ErrWrap (''failed to convert struct field '' @ quoted (structFieldName name jsonTag)) err)
         | Inr (converted, _) \<Rightarrow>
             convertStruct_loop lib tc
               (mapInsert (structFieldName name jsonTag) converted structMap) rest))"
  by pat_completeness auto
termination
proof -
  have vsize_pos: "0 < vsize v" for v
    by (cases v rule: vsize.cases) auto
  show ?thesis
  proof (relation "measure (\<lambda>x. case x of
          Inl (Inl (lib, tc, v)) \<Rightarrow> 2 * vsize v
        | Inl (Inr (lib, tc, i, et, acc, items)) \<Rightarrow> 2 * sum_list (map vsize items) + 1
        | Inr (Inl (lib, tc, acc, m)) \<Rightarrow> 2 * sum_list (map (\<lambda>e. vsize (snd e)) m) + 1
        | Inr (Inr (lib, tc, acc, fs)) \<Rightarrow>
            2 * sum_list (map (\<lambda>f. vsize (snd (snd (snd f)))) fs) + 1)", goal_cases)
    case 1
    show ?case by simp
  next
    case (2 lib tc s obj)
    then show ?case
      by (auto simp: jsonDecode_def split: option.splits if_splits)
  qed (auto simp: vsize_pos)
qed

text \<open>
  \<open>ConvertKuzuValueToGo\<close> and its helpers. An error that comes from the standard
  library is \<open>ErrLibrary\<close>; the value that Go returns beside an error is dropped.
\<close>

definition convertKuzuString :: "golib \<Rightarrow> goValue \<Rightarrow> error + goValue" where
  "convertKuzuString lib v = (case v of VString str \<Rightarrow> Inr (VString str) | _ \<Rightarrow> Inr (VString (fmtV lib v)))"

definition convertKuzuBool :: "golib \<Rightarrow> goValue \<Rightarrow> error + goValue" where
  "convertKuzuBool lib v =
     (case v of
        VBool b \<Rightarrow> Inr (VBool b)
      | VString s \<Rightarrow> (case parseBool lib s of Some b \<Rightarrow> Inr (VBool b) | None \<Rightarrow> Inl ErrLibrary)
      | VInt64 i \<Rightarrow> Inr (VBool (i \<noteq> 0))
      | _ \<Rightarrow> Inl (ErrMsg (''cannot convert '' @ fmtT lib v @ '' to bool'')))"

definition convertKuzuInt :: "golib \<Rightarrow> goValue \<Rightarrow> KuzuDataType \<Rightarrow> error + goValue" where
  "convertKuzuInt lib v dataType =
     (case v of
        VInt64 i \<Rightarrow>
          (if dataType = KuzuINT8 then Inr (VInt8 (ucast i))
           else if dataType = KuzuINT16 then Inr (VInt16 (ucast i))
           else if dataType = KuzuINT32 then Inr (VInt32 (ucast i))
           else Inr (VInt64 i))
      | VFloat64 f \<Rightarrow> Inr (VInt64 (f64ToInt64 lib f))
      | VString s \<Rightarrow> (case parseInt lib s of Some i \<Rightarrow> Inr (VInt64 i) | None \<Rightarrow> Inl ErrLibrary)
      | _ \<Rightarrow> Inl (ErrMsg (''cannot convert '' @ fmtT lib v @ '' to int'')))"

definition convertKuzuUint :: "golib \<Rightarrow> goValue \<Rightarrow> KuzuDataType \<Rightarrow> error + goValue" where
  "convertKuzuUint lib v dataType =
     (case v of
        VUint64 u \<Rightarrow>
          (if dataType = KuzuUINT8 then Inr (VUint8 (ucast u))
           else if dataType = KuzuUINT16 then Inr (VUint16 (ucast u))
           else if dataType = KuzuUINT32 then Inr (VUint32 (ucast u))
           else Inr (VUint64 u))
      | VInt64 i \<Rightarrow> Inr (VUint64 i)
      | VFloat64 f \<Rightarrow> Inr (VUint64 (f64ToUint64 lib f))
      | VString s \<Rightarrow> (case parseUint lib s of Some u \<Rightarrow> Inr (VUint64 u) | None \<Rightarrow> Inl ErrLibrary)
      | _ \<Rightarrow> Inl (ErrMsg (''cannot convert '' @ fmtT lib v @ '' to uint'')))"

definition convertKuzuFloat :: "golib \<Rightarrow> goValue \<Rightarrow> KuzuDataType \<Rightarrow> error + goValue" where
  "convertKuzuFloat lib v dataType =
     (case v of
        VFloat64 f \<Rightarrow> (if dataType = KuzuFLOAT then Inr (VFloat32 (f64ToF32 lib f)) else Inr (VFloat64 f))
      | VInt64 i \<Rightarrow> (if dataType = KuzuFLOAT then Inr (VFloat32 (i64ToF32 lib i)) else Inr (VFloat64 (i64ToF64 lib i)))
      | VString s \<Rightarrow>
          (case (if dataType = KuzuFLOAT then parseFloat lib 32 s else None) of
             Some f \<Rightarrow> Inr (VFloat32 (f64ToF32 lib f))
           | None \<Rightarrow> (case parseFloat lib 64 s of Some f \<Rightarrow> Inr (VFloat64 f) | None \<Rightarrow> Inl ErrLibrary))
      | _ \<Rightarrow> Inl (ErrMsg (''cannot convert '' @ fmtT lib v @ '' to float'')))"

definition convertKuzuDate :: "golib \<Rightarrow> TypeConverter \<Rightarrow> goValue \<Rightarrow> error + goValue" where
  "convertKuzuDate lib tc v =
     (case v of
        VString s \<Rightarrow> (case timeParse lib (DateFormat tc) s of Some t \<Rightarrow> Inr (VTime t) | None \<Rightarrow> Inl ErrLibrary)
      | VTime t \<Rightarrow> Inr (VTime t)
      | _ \<Rightarrow> Inl (ErrMsg (''cannot convert '' @ fmtT lib v @ '' to date'')))"

definition convertKuzuTimestamp :: "golib \<Rightarrow> TypeConverter \<Rightarrow> goValue \<Rightarrow> error + goValue" where
  "convertKuzuTimestamp lib tc v =
     (case v of
        VString s \<Rightarrow>
          (case timeParse lib (TimestampFormat tc) s of Some t \<Rightarrow> Inr (VTime t) | None \<Rightarrow> Inl ErrLibrary)
      | VTime t \<Rightarrow> Inr (VTime t)
      | _ \<Rightarrow> Inl (ErrMsg (''cannot convert '' @ fmtT lib v @ '' to timestamp'')))"

definition convertKuzuList :: "golib \<Rightarrow> goValue \<Rightarrow> error + goValue" where
  "convertKuzuList lib v =
     (case v of
        VSlice xs \<Rightarrow> Inr (VSlice xs)
      | VString s \<Rightarrow>
          (case jsonUnmarshalSlice lib s of
             Some arr \<Rightarrow> Inr (VSlice arr)
           | None \<Rightarrow> Inl (ErrMsg (''cannot parse string as list: '' @ s)))
      | _ \<Rightarrow> Inl (ErrMsg (''cannot convert '' @ fmtT lib v @ '' to list'')))"

definition convertKuzuStruct :: "golib \<Rightarrow> goValue \<Rightarrow> error + goValue" where
  "convertKuzuStruct lib v =
     (case v of
        VMap m \<Rightarrow> Inr (VMap m)
      | VString s \<Rightarrow>
          (case jsonUnmarshalMap lib s of
             Some obj \<Rightarrow> Inr (VMap obj)
           | None \<Rightarrow> Inl (ErrMsg (''cannot parse string as struct: '' @ s)))
      | _ \<Rightarrow> Inl (ErrMsg (''cannot convert '' @ fmtT lib v @ '' to struct'')))"

definition ConvertKuzuValueToGo :: "golib \<Rightarrow> TypeConverter \<Rightarrow> goValue \<Rightarrow> KuzuDataType \<Rightarrow> error + goValue" where
  "ConvertKuzuValueToGo lib tc v dataType =
     (if v = VNil then Inr VNil
      else if dataType = KuzuSTRING then convertKuzuString lib v
      else if dataType = KuzuBOOL then convertKuzuBool lib v
      else if dataType \<in> {KuzuINT8, KuzuINT16, KuzuINT32, KuzuINT64} then convertKuzuInt lib v dataType
      else if dataType \<in> {KuzuUINT8, KuzuUINT16, KuzuUINT32, KuzuUINT64} then convertKuzuUint lib v dataType
      else if dataType \<in> {KuzuFLOAT, KuzuDOUBLE} then convertKuzuFloat lib v dataType
      else if dataType = KuzuDATE then convertKuzuDate lib tc v
      else if dataType = KuzuTIMESTAMP then convertKuzuTimestamp lib tc v
      else if dataType = KuzuLIST then convertKuzuList lib v
      else if dataType = KuzuSTRUCT then convertKuzuStruct lib v
      else Inr v)"



text \<open>
  The round trip: convert a host value, then convert the result back under
  the type tag the first conversion returned.
\<close>

definition roundTrip :: "golib \<Rightarrow> TypeConverter \<Rightarrow> goValue \<Rightarrow> error + goValue" where
  "roundTrip lib tc v =
     (case ConvertGoValueToKuzu lib tc v of
        Inl err \<Rightarrow> Inl err
      | Inr (kv, dataType) \<Rightarrow> ConvertKuzuValueToGo lib tc kv dataType)"

text \<open>\<open>PropertyConverter.ConvertProperties\<close>, whose converter is \<open>NewTypeConverter()\<close>.\<close>

fun ConvertProperties_loop ::
  "golib \<Rightarrow> (string \<times> goValue) list \<Rightarrow> (string \<times> goValue) list \<Rightarrow> error + (string \<times> goValue) list" where
  "ConvertProperties_loop lib converted [] = Inr converted"
| "ConvertProperties_loop lib converted ((key, val) # rest) =
     (case ConvertGoValueToKuzu lib NewTypeConverter val of
        Inl err \<Rightarrow> Inl (ErrWrap (''failed to convert property '' @ quoted key) err)
      | Inr (convertedValue, _) \<Rightarrow> ConvertProperties_loop lib (mapInsert key convertedValue converted) rest)"

definition ConvertProperties :: "golib \<Rightarrow> (string \<times> goValue) list \<Rightarrow> error + (string \<times> goValue) list" where
  "ConvertProperties lib properties = ConvertProperties_loop lib [] properties"


section \<open>Schema management\<close>

definition isLetter :: "char \<Rightarrow> bool" where
  "isLetter b =
     ((97 \<le> (of_char b :: nat) \<and> (of_char b :: nat) \<le> 122) \<or>
      (65 \<le> (of_char b :: nat) \<and> (of_char b :: nat) \<le> 90))"

definition replaceAll :: "char \<Rightarrow> char \<Rightarrow> string \<Rightarrow> string" where
  "replaceAll old new s = map (\<lambda>c. if c = old then new else c) s"

definition sanitizeIdentifier :: "string \<Rightarrow> string" where
  "sanitizeIdentifier identifier =
     (let sanitized = replaceAll (CHR '' '') (CHR ''_'') identifier;
          sanitized = replaceAll (CHR ''-'') (CHR ''_'') sanitized
      in if sanitized \<noteq> [] \<and> \<not> isLetter (hd sanitized) \<and> hd sanitized \<noteq> CHR ''_''
         then ''_'' @ sanitized else sanitized)"

text \<open>
  A \<open>range\<close> loop with an early return on the first error: \<open>f\<close> is the body, which
  returns its (already wrapped) error and the new state.
\<close>

fun forEach :: "('a \<Rightarrow> 's \<Rightarrow> error option \<times> 's) \<Rightarrow> 'a list \<Rightarrow> 's \<Rightarrow> error option \<times> 's" where
  "forEach f [] s = (None, s)"
| "forEach f (x # xs) s =
     (case f x s of
        (Some err, s') \<Rightarrow> (Some err, s')
      | (None, s') \<Rightarrow> forEach f xs s')"

text \<open>
  \<open>fmt.Errorf\<close> with \<open>%w\<close> around the error of a call, if it has one. A panic is
  not an error value and passes every wrapper as it is.
\<close>

definition wrapErr :: "string \<Rightarrow> error option \<times> 's \<Rightarrow> error option \<times> 's" where
  "wrapErr msg r =
     (case r of
        (Some err, s) \<Rightarrow> (Some (if err = ErrPanic then ErrPanic else ErrWrap msg err), s)
      | (None, s) \<Rightarrow> (None, s))"

text \<open>
  The four table creators. They call \<open>k.connection.Query\<close> directly, which on a nil
  connection is a nil dereference (\<open>ErrPanic\<close>). The cache is written only after the
  engine accepted the statement.
\<close>

definition createNodeTable :: "engine \<Rightarrow> string \<Rightarrow> Kuzu \<Rightarrow> error option \<times> Kuzu" where
  "createNodeTable eng nodeType k =
     (if nodeTables k nodeType then (None, k)
      else if \<not> connected k then (Some ErrPanic, k)
      else (case engineRun eng k (QCreateNodeTable (sanitizeIdentifier nodeType)) PNone of
              (False, k') \<Rightarrow> (Some (ErrWrap (''failed to create node table '' @ nodeType) ErrEngine), k')
            | (True, k') \<Rightarrow> (None, k'\<lparr>nodeTables := (nodeTables k')(nodeType := True)\<rparr>)))"

definition createChunkNodeTable :: "engine \<Rightarrow> Kuzu \<Rightarrow> error option \<times> Kuzu" where
  "createChunkNodeTable eng k =
     (if nodeTables k ''Chunk'' then (None, k)
      else if \<not> connected k then (Some ErrPanic, k)
      else (case engineRun eng k QCreateChunkTable PNone of
              (False, k') \<Rightarrow> (Some (ErrWrap ''failed to create Chunk node table'' ErrEngine), k')
            | (True, k') \<Rightarrow> (None, k'\<lparr>nodeTables := (nodeTables k')(''Chunk'' := True)\<rparr>)))"

definition relPatternKey :: "string \<Rightarrow> string \<Rightarrow> string \<Rightarrow> string" where
  "relPatternKey sourceType relType targetType = sourceType @ ''_'' @ relType @ ''_'' @ targetType"

definition createRelationshipTable ::
  "engine \<Rightarrow> string \<Rightarrow> string \<Rightarrow> string \<Rightarrow> Kuzu \<Rightarrow> error option \<times> Kuzu" where
  "createRelationshipTable eng relType sourceType targetType k =
     (let key = relPatternKey sourceType relType targetType in
      if relTables k key then (None, k)
      else if \<not> connected k then (Some ErrPanic, k)
      else (case engineRun eng k
                   (QCreateRelTable (sanitizeIdentifier relType) (sanitizeIdentifier sourceType)
                      (sanitizeIdentifier targetType)) PNone of
              (False, k') \<Rightarrow>
                (Some (ErrWrap (''failed to create relationship table '' @ relType) ErrEngine), k')
            | (True, k') \<Rightarrow> (None, k'\<lparr>relTables := (relTables k')(key := True)\<rparr>)))"

definition createMentionsRelationshipTable :: "engine \<Rightarrow> Kuzu \<Rightarrow> error option \<times> Kuzu" where
  "createMentionsRelationshipTable eng k =
     (if relTables k ''MENTIONS'' then (None, k)
      else if \<not> connected k then (Some ErrPanic, k)
      else (case engineRun eng k QCreateMentionsTable PNone of
              (False, k') \<Rightarrow> (None, k')
            | (True, k') \<Rightarrow> (None, k'\<lparr>relTables := (relTables k')(''MENTIONS'' := True)\<rparr>)))"

section \<open>Graph documents and their import\<close>

record Document =
  PageContent :: string
  Metadata :: "(string \<times> goValue) list"

record GraphDocument =
  doc_Source :: Document
  doc_Nodes :: "Node list"
  doc_Relationships :: "Relationship list"

record Options =
  IncludeSource :: bool
  BatchSize :: int
  Timeout :: int

definition NewOptions :: Options where
  "NewOptions = \<lparr>IncludeSource = False, BatchSize = 100, Timeout = 0\<rparr>"

text \<open>
  A map that the code fills itself is the list of its entries in the order of their
  first insertion, and a loop over it visits them in that order. (Go leaves the order
  open; the statements below that depend on an order say so.) \<open>groupAppend\<close> is
  \<open>m[key] = append(m[key], x)\<close>.
\<close>

definition groupAppend :: "string \<Rightarrow> 'a \<Rightarrow> (string \<times> 'a list) list \<Rightarrow> (string \<times> 'a list) list" where
  "groupAppend key x m = mapInsert key ((case map_of m key of None \<Rightarrow> [] | Some g \<Rightarrow> g) @ [x]) m"

definition relKeyOf :: "Relationship \<Rightarrow> string" where
  "relKeyOf rel = relPatternKey (node_Type (rel_Source rel)) (rel_Type rel) (node_Type (rel_Target rel))"

definition nodeTypesOf :: "Node list \<Rightarrow> (string \<times> bool) list \<Rightarrow> (string \<times> bool) list" where
  "nodeTypesOf nodes m = fold (\<lambda>node m. mapInsert (node_Type node) True m) nodes m"

definition relPatternsOf ::
  "Relationship list \<Rightarrow> (string \<times> string \<times> string \<times> string) list \<Rightarrow>
   (string \<times> string \<times> string \<times> string) list" where
  "relPatternsOf rels m =
     fold (\<lambda>rel m. mapInsert (relKeyOf rel)
                      (node_Type (rel_Source rel), node_Type (rel_Target rel), rel_Type rel) m)
          rels m"

text \<open>
  \<open>ensureTablesExist\<close> for one document and \<open>ensureTablesForBatch\<close> for the types
  collected over several. A pattern is (source type, target type, relationship type).
\<close>

definition ensureTablesExist :: "engine \<Rightarrow> GraphDocument \<Rightarrow> Kuzu \<Rightarrow> error option \<times> Kuzu" where
  "ensureTablesExist eng doc k =
     (case forEach (\<lambda>nodeType k. wrapErr (''failed to create node table for type '' @ nodeType)
                                     (createNodeTable eng nodeType k))
                   (map fst (nodeTypesOf (doc_Nodes doc) [])) k of
        (Some err, k1) \<Rightarrow> (Some err, k1)
      | (None, k1) \<Rightarrow>
          (case wrapErr ''failed to create Chunk node table'' (createChunkNodeTable eng k1) of
             (Some err, k2) \<Rightarrow> (Some err, k2)
           | (None, k2) \<Rightarrow>
               (case forEach (\<lambda>(sourceType, targetType, relType) k.
                                 wrapErr (''failed to create relationship table '' @ relType)
                                   (createRelationshipTable eng relType sourceType targetType k))
                             (map snd (relPatternsOf (doc_Relationships doc) [])) k2 of
                  (Some err, k3) \<Rightarrow> (Some err, k3)
                | (None, k3) \<Rightarrow>
                    wrapErr ''failed to create MENTIONS relationship table''
                      (createMentionsRelationshipTable eng k3))))"

definition ensureTablesForBatch ::
  "engine \<Rightarrow> (string \<times> bool) list \<Rightarrow> (string \<times> string \<times> string \<times> string) list \<Rightarrow> Kuzu \<Rightarrow>
   error option \<times> Kuzu" where
  "ensureTablesForBatch eng nodeTypes relPatterns k =
     (case forEach (\<lambda>nodeType k. wrapErr (''failed to create node table '' @ nodeType)
                                     (createNodeTable eng nodeType k))
                   (map fst nodeTypes) k of
        (Some err, k1) \<Rightarrow> (Some err, k1)
      | (None, k1) \<Rightarrow>
          (case wrapErr ''failed to create Chunk table'' (createChunkNodeTable eng k1) of
             (Some err, k2) \<Rightarrow> (Some err, k2)
           | (None, k2) \<Rightarrow>
               (case forEach (\<lambda>(sourceType, targetType, relType) k.
                                 wrapErr (''failed to create relationship table '' @ relType)
                                   (createRelationshipTable eng relType sourceType targetType k))
                             (map snd relPatterns) k2 of
                  (Some err, k3) \<Rightarrow> (Some err, k3)
                | (None, k3) \<Rightarrow>
                    wrapErr ''failed to create MENTIONS table''
                      (createMentionsRelationshipTable eng k3))))"

text \<open>\<open>validateGraphDocument\<close>: the two loops, with their index.\<close>

fun validateNodes :: "nat \<Rightarrow> Node list \<Rightarrow> error option" where
  "validateNodes i [] = None"
| "validateNodes i (node # rest) =
     (if node_ID node = '''' then Some (ErrMsg (''node at index '' @ showNat i @ '' has empty ID''))
      else if node_Type node = '''' then Some (ErrMsg (''node '' @ node_ID node @ '' has empty type''))
      else validateNodes (i + 1) rest)"

fun validateRelationships :: "nat \<Rightarrow> Relationship list \<Rightarrow> error option" where
  "validateRelationships i [] = None"
| "validateRelationships i (rel # rest) =
     (if rel_Type rel = ''''
      then Some (ErrMsg (''relationship at index '' @ showNat i @ '' has empty type''))
      else if node_ID (rel_Source rel) = ''''
      then Some (ErrMsg (''relationship at index '' @ showNat i @ '' has empty source ID''))
      else if node_ID (rel_Target rel) = ''''
      then Some (ErrMsg (''relationship at index '' @ showNat i @ '' has empty target ID''))
      else validateRelationships (i + 1) rest)"

definition validateGraphDocument :: "GraphDocument \<Rightarrow> error option" where
  "validateGraphDocument doc =
     (case validateNodes 0 (doc_Nodes doc) of
        Some err \<Rightarrow> Some err
      | None \<Rightarrow> validateRelationships 0 (doc_Relationships doc))"

section \<open>Writing nodes and relationships\<close>

text \<open>
  \<open>generateDocumentID\<close> and the document identifier that the source links use: the
  \<open>id\<close> entry of the metadata when it is a string, else (or when that is empty) the
  identifier made from the content.
\<close>

definition generateDocumentID :: "string \<Rightarrow> string" where
  "generateDocumentID content =
     ''doc_'' @ showInt (sint (fold (\<lambda>char (hash :: 64 word). hash * 31 + of_nat char) (runes content) 0))"

definition documentID :: "GraphDocument \<Rightarrow> string" where
  "documentID doc =
     (let docID = (case map_of (Metadata (doc_Source doc)) ''id'' of
                     Some (VString idStr) \<Rightarrow> idStr
                   | _ \<Rightarrow> '''')
      in if docID = '''' then generateDocumentID (PageContent (doc_Source doc)) else docID)"

text \<open>
  The property loops of the four single writers. Each builds the two parallel arrays
  \<open>propKeys\<close> and \<open>propValues\<close>; the node writers skip the keys \<open>id\<close> and \<open>type\<close>.
\<close>

fun addNode_props ::
  "golib \<Rightarrow> (string \<times> goValue) list \<Rightarrow> string list \<times> string list \<Rightarrow> string list \<times> string list" where
  "addNode_props lib [] (propKeys, propValues) = (propKeys, propValues)"
| "addNode_props lib ((key, val) # rest) (propKeys, propValues) =
     (if key = ''id'' \<or> key = ''type'' then addNode_props lib rest (propKeys, propValues)
      else addNode_props lib rest
             (propKeys @ [key],
              propValues @ [case ConvertGoValueToKuzu lib NewTypeConverter val of
                              Inl convErr \<Rightarrow> fmtV lib val
                            | Inr (convertedValue, _) \<Rightarrow> fmtV lib convertedValue]))"

fun addRelationship_props ::
  "golib \<Rightarrow> (string \<times> goValue) list \<Rightarrow> string list \<times> string list \<Rightarrow> string list \<times> string list" where
  "addRelationship_props lib [] (propKeys, propValues) = (propKeys, propValues)"
| "addRelationship_props lib ((key, val) # rest) (propKeys, propValues) =
     addRelationship_props lib rest
       (propKeys @ [key],
        propValues @ [case ConvertGoValueToKuzu lib NewTypeConverter val of
                        Inl convErr \<Rightarrow> fmtV lib val
                      | Inr (convertedValue, _) \<Rightarrow> fmtV lib convertedValue])"

fun addNodeInTransaction_props ::
  "golib \<Rightarrow> (string \<times> goValue) list \<Rightarrow> string list \<times> string list \<Rightarrow> string list \<times> string list" where
  "addNodeInTransaction_props lib [] (propKeys, propValues) = (propKeys, propValues)"
| "addNodeInTransaction_props lib ((key, val) # rest) (propKeys, propValues) =
     (if key = ''id'' \<or> key = ''type'' then addNodeInTransaction_props lib rest (propKeys, propValues)
      else addNodeInTransaction_props lib rest (propKeys @ [key], propValues @ [fmtV lib val]))"

fun addRelationshipInTransaction_props ::
  "golib \<Rightarrow> (string \<times> goValue) list \<Rightarrow> string list \<times> string list \<Rightarrow> string list \<times> string list" where
  "addRelationshipInTransaction_props lib [] (propKeys, propValues) = (propKeys, propValues)"
| "addRelationshipInTransaction_props lib ((key, val) # rest) (propKeys, propValues) =
     addRelationshipInTransaction_props lib rest (propKeys @ [key], propValues @ [fmtV lib val])"

text \<open>
  \<open>Query\<close> as the writers use it: only its error matters to them. The single writers
  outside a transaction run under \<open>context.Background()\<close>, which is never cancelled.
\<close>

definition runQuery :: "engine \<Rightarrow> bool \<Rightarrow> query \<Rightarrow> params \<Rightarrow> Kuzu \<Rightarrow> error option \<times> Kuzu" where
  "runQuery eng ctxDone q p k =
     (case Query eng ctxDone k q p of (Inl err, k') \<Rightarrow> (Some err, k') | (Inr _, k') \<Rightarrow> (None, k'))"

definition runTxQuery ::
  "engine \<Rightarrow> query \<Rightarrow> params \<Rightarrow> Kuzu \<times> Transaction \<Rightarrow> error option \<times> Kuzu \<times> Transaction" where
  "runTxQuery eng q p kt =
     (case tx_Query eng kt q p of (Inl err, kt') \<Rightarrow> (Some err, kt') | (Inr _, kt') \<Rightarrow> (None, kt'))"

definition addNode :: "golib \<Rightarrow> engine \<Rightarrow> Node \<Rightarrow> Kuzu \<Rightarrow> error option \<times> Kuzu" where
  "addNode lib eng node k =
     (if node_ID node = '''' then (Some (ErrMsg ''node ID cannot be empty''), k)
      else
        (case ConvertProperties lib (node_Properties node) of
           Inl err \<Rightarrow> (Some (ErrWrap ''failed to convert node properties'' err), k)
         | Inr convertedProperties \<Rightarrow>
             (case addNode_props lib convertedProperties ([], []) of
                (propKeys, propValues) \<Rightarrow>
                  wrapErr (''failed to add node '' @ node_ID node)
                    (runQuery eng False (QMergeNode (sanitizeIdentifier (node_Type node)))
                       (PNode (node_ID node) (node_Type node) propKeys propValues) k))))"

definition addRelationship :: "golib \<Rightarrow> engine \<Rightarrow> Relationship \<Rightarrow> Kuzu \<Rightarrow> error option \<times> Kuzu" where
  "addRelationship lib eng rel k =
     (if node_ID (rel_Source rel) = '''' \<or> node_ID (rel_Target rel) = ''''
      then (Some (ErrMsg ''relationship source and target IDs cannot be empty''), k)
      else
        (case ConvertProperties lib (rel_Properties rel) of
           Inl err \<Rightarrow> (Some (ErrWrap ''failed to convert relationship properties'' err), k)
         | Inr convertedProperties \<Rightarrow>
             (case addRelationship_props lib convertedProperties ([], []) of
                (propKeys, propValues) \<Rightarrow>
                  wrapErr (''failed to add relationship '' @ rel_Type rel)
                    (runQuery eng False
                       (QMergeRel (sanitizeIdentifier (node_Type (rel_Source rel)))
                          (sanitizeIdentifier (node_Type (rel_Target rel)))
                          (sanitizeIdentifier (rel_Type rel)))
                       (PRel (node_ID (rel_Source rel)) (node_ID (rel_Target rel)) propKeys propValues)
                       k))))"

definition addNodeInTransaction ::
  "golib \<Rightarrow> engine \<Rightarrow> Node \<Rightarrow> Kuzu \<times> Transaction \<Rightarrow> error option \<times> Kuzu \<times> Transaction" where
  "addNodeInTransaction lib eng node kt =
     (if node_ID node = '''' then (Some (ErrMsg ''node ID cannot be empty''), kt)
      else
        (case addNodeInTransaction_props lib (node_Properties node) ([], []) of
           (propKeys, propValues) \<Rightarrow>
             wrapErr (''failed to add node '' @ node_ID node @ '' in transaction'')
               (runTxQuery eng (QMergeNode (sanitizeIdentifier (node_Type node)))
                  (PNode (node_ID node) (node_Type node) propKeys propValues) kt)))"

definition addRelationshipInTransaction ::
  "golib \<Rightarrow> engine \<Rightarrow> Relationship \<Rightarrow> Kuzu \<times> Transaction \<Rightarrow> error option \<times> Kuzu \<times> Transaction" where
  "addRelationshipInTransaction lib eng rel kt =
     (if node_ID (rel_Source rel) = '''' \<or> node_ID (rel_Target rel) = ''''
      then (Some (ErrMsg ''relationship source and target IDs cannot be empty''), kt)
      else
        (case addRelationshipInTransaction_props lib (rel_Properties rel) ([], []) of
           (propKeys, propValues) \<Rightarrow>
             wrapErr (''failed to add relationship '' @ rel_Type rel @ '' in transaction'')
               (runTxQuery eng
                  (QMergeRel (sanitizeIdentifier (node_Type (rel_Source rel)))
                     (sanitizeIdentifier (node_Type (rel_Target rel)))
                     (sanitizeIdentifier (rel_Type rel)))
                  (PRel (node_ID (rel_Source rel)) (node_ID (rel_Target rel)) propKeys propValues)
                  kt)))"

text \<open>
  The batch writers. A batch statement sets \<open>n.properties\<close> only when the first node
  of the batch has a property; its parameter holds, for every node, the identifier, the
  type and the property map as it is.
\<close>

definition nodeBatchQuery :: "string \<Rightarrow> Node list \<Rightarrow> query \<times> params" where
  "nodeBatchQuery nodeType nodes =
     (QMergeNodeBatch (sanitizeIdentifier nodeType)
        (case nodes of [] \<Rightarrow> False | first # _ \<Rightarrow> node_Properties first \<noteq> []),
      PNodeBatch (map (\<lambda>node. (node_ID node, node_Type node, node_Properties node)) nodes))"

definition insertNodeBatch :: "engine \<Rightarrow> bool \<Rightarrow> string \<Rightarrow> Node list \<Rightarrow> Kuzu \<Rightarrow> error option \<times> Kuzu" where
  "insertNodeBatch eng ctxDone nodeType nodes k =
     (if nodes = [] then (None, k)
      else wrapErr ''failed to execute batch insert''
             (runQuery eng ctxDone (fst (nodeBatchQuery nodeType nodes))
                (snd (nodeBatchQuery nodeType nodes)) k))"

definition insertNodeBatchInTransaction ::
  "engine \<Rightarrow> string \<Rightarrow> Node list \<Rightarrow> Kuzu \<times> Transaction \<Rightarrow> error option \<times> Kuzu \<times> Transaction" where
  "insertNodeBatchInTransaction eng nodeType nodes kt =
     (if nodes = [] then (None, kt)
      else wrapErr ''failed to execute batch insert in transaction''
             (runTxQuery eng (fst (nodeBatchQuery nodeType nodes))
                (snd (nodeBatchQuery nodeType nodes)) kt))"

text \<open>
  The loop \<open>for i := 0; i < len(xs); i += batchSize\<close> over the parts \<open>xs[i:end]\<close>,
  with the error wrapped by a message made from \<open>i\<close> and \<open>end-1\<close>.
\<close>

function chunked ::
  "nat \<Rightarrow> (nat \<Rightarrow> nat \<Rightarrow> string) \<Rightarrow> ('a list \<Rightarrow> 's \<Rightarrow> error option \<times> 's) \<Rightarrow> nat \<Rightarrow> 'a list \<Rightarrow> 's \<Rightarrow>
   error option \<times> 's" where
  "chunked batchSize msg f i xs s =
     (if i < length xs \<and> 0 < batchSize
      then (let end' = min (i + batchSize) (length xs) in
            case wrapErr (msg i (end' - 1)) (f (take (end' - i) (drop i xs)) s) of
              (Some err, s') \<Rightarrow> (Some err, s')
            | (None, s') \<Rightarrow> chunked batchSize msg f (i + batchSize) xs s')
      else (None, s))"
  by pat_completeness auto
termination
  by (relation "measure (\<lambda>(batchSize, msg, f, i, xs, s). length xs - i)") auto

definition batchInsertNodesByType ::
  "engine \<Rightarrow> bool \<Rightarrow> string \<Rightarrow> Node list \<Rightarrow> Kuzu \<Rightarrow> error option \<times> Kuzu" where
  "batchInsertNodesByType eng ctxDone nodeType nodes k =
     (if nodes = [] then (None, k)
      else chunked 100 (\<lambda>i e. ''failed to insert batch '' @ showNat i @ ''-'' @ showNat e)
             (insertNodeBatch eng ctxDone nodeType) 0 nodes k)"

definition batchInsertNodesByTypeInTransaction ::
  "engine \<Rightarrow> string \<Rightarrow> Node list \<Rightarrow> Kuzu \<times> Transaction \<Rightarrow> error option \<times> Kuzu \<times> Transaction" where
  "batchInsertNodesByTypeInTransaction eng nodeType nodes kt =
     (if nodes = [] then (None, kt)
      else chunked 100 (\<lambda>i e. ''failed to insert batch '' @ showNat i @ ''-'' @ showNat e)
             (insertNodeBatchInTransaction eng nodeType) 0 nodes kt)"

definition relBatchQuery :: "Relationship list \<Rightarrow> query \<times> params" where
  "relBatchQuery rels =
     (case rels of
        [] \<Rightarrow> (QText '''', PNone)
      | firstRel # _ \<Rightarrow>
          (QMergeRelBatch (sanitizeIdentifier (node_Type (rel_Source firstRel)))
             (sanitizeIdentifier (node_Type (rel_Target firstRel)))
             (sanitizeIdentifier (rel_Type firstRel))
             (rel_Properties firstRel \<noteq> []),
           PRelBatch (map (\<lambda>rel. (node_ID (rel_Source rel), node_ID (rel_Target rel), rel_Properties rel))
                          rels)))"

definition relBatchMessage :: "string \<Rightarrow> Relationship list \<Rightarrow> string" where
  "relBatchMessage tail rels =
     (case rels of
        [] \<Rightarrow> ''''
      | firstRel # _ \<Rightarrow>
          ''failed to insert relationship batch for pattern '' @
          relPatternKey (node_Type (rel_Source firstRel)) (rel_Type firstRel)
            (node_Type (rel_Target firstRel)) @ tail)"

definition groupRelationships :: "Relationship list \<Rightarrow> (string \<times> Relationship list) list" where
  "groupRelationships rels = fold (\<lambda>rel m. groupAppend (relKeyOf rel) rel m) rels []"

definition insertRelationshipBatch ::
  "engine \<Rightarrow> bool \<Rightarrow> Relationship list \<Rightarrow> Kuzu \<Rightarrow> error option \<times> Kuzu" where
  "insertRelationshipBatch eng ctxDone relationships k =
     (if relationships = [] then (None, k)
      else forEach (\<lambda>rels k.
                      if rels = [] then (None, k)
                      else wrapErr (relBatchMessage '''' rels)
                             (runQuery eng ctxDone (fst (relBatchQuery rels)) (snd (relBatchQuery rels)) k))
             (map snd (groupRelationships relationships)) k)"

definition insertRelationshipBatchInTransaction ::
  "engine \<Rightarrow> Relationship list \<Rightarrow> Kuzu \<times> Transaction \<Rightarrow> error option \<times> Kuzu \<times> Transaction" where
  "insertRelationshipBatchInTransaction eng relationships kt =
     (if relationships = [] then (None, kt)
      else forEach (\<lambda>rels kt.
                      if rels = [] then (None, kt)
                      else wrapErr (relBatchMessage '' in transaction'' rels)
                             (runTxQuery eng (fst (relBatchQuery rels)) (snd (relBatchQuery rels)) kt))
             (map snd (groupRelationships relationships)) kt)"

definition batchInsertRelationships ::
  "engine \<Rightarrow> bool \<Rightarrow> Relationship list \<Rightarrow> Kuzu \<Rightarrow> error option \<times> Kuzu" where
  "batchInsertRelationships eng ctxDone relationships k =
     (if relationships = [] then (None, k)
      else chunked 100
             (\<lambda>i e. ''failed to insert relationship batch '' @ showNat i @ ''-'' @ showNat e)
             (insertRelationshipBatch eng ctxDone) 0 relationships k)"

definition batchInsertRelationshipsInTransaction ::
  "engine \<Rightarrow> Relationship list \<Rightarrow> Kuzu \<times> Transaction \<Rightarrow> error option \<times> Kuzu \<times> Transaction" where
  "batchInsertRelationshipsInTransaction eng relationships kt =
     (if relationships = [] then (None, kt)
      else chunked 100
             (\<lambda>i e. ''failed to insert relationship batch '' @ showNat i @ ''-'' @ showNat e)
             (insertRelationshipBatchInTransaction eng) 0 relationships kt)"

text \<open>The source links of the batched path outside a transaction.\<close>

definition batchCreateMentionsRelationships ::
  "engine \<Rightarrow> bool \<Rightarrow> string \<Rightarrow> string \<Rightarrow> string list \<Rightarrow> Kuzu \<Rightarrow> error option \<times> Kuzu" where
  "batchCreateMentionsRelationships eng ctxDone docID nodeType nodeIDs k =
     (if nodeIDs = [] then (None, k)
      else wrapErr ''failed to create batch MENTIONS relationships''
             (runQuery eng ctxDone (QMentionsBatch (sanitizeIdentifier nodeType))
                (PMentions docID nodeIDs) k))"

definition batchLinkNodesToSource ::
  "engine \<Rightarrow> bool \<Rightarrow> Node list \<Rightarrow> GraphDocument \<Rightarrow> Kuzu \<Rightarrow> error option \<times> Kuzu" where
  "batchLinkNodesToSource eng ctxDone nodes doc k =
     (if PageContent (doc_Source doc) = '''' then (None, k)
      else forEach (\<lambda>(nodeType, nodeIDs) k.
                      wrapErr (''failed to create MENTIONS for type '' @ nodeType)
                        (batchCreateMentionsRelationships eng ctxDone (documentID doc) nodeType nodeIDs k))
             (fold (\<lambda>node m. groupAppend (node_Type node) (node_ID node) m) nodes []) k)"

section \<open>Import entry points\<close>

definition groupNodes :: "Node list \<Rightarrow> (string \<times> Node list) list" where
  "groupNodes nodes = fold (\<lambda>node m. groupAppend (node_Type node) node m) nodes []"

definition processIndividually ::
  "golib \<Rightarrow> engine \<Rightarrow> GraphDocument \<Rightarrow> Options \<Rightarrow> Kuzu \<Rightarrow> error option \<times> Kuzu" where
  "processIndividually lib eng doc opts k =
     (case forEach (addNode lib eng) (doc_Nodes doc) k of
        (Some err, k1) \<Rightarrow> (Some err, k1)
      | (None, k1) \<Rightarrow> forEach (addRelationship lib eng) (doc_Relationships doc) k1)"

definition processBatch ::
  "engine \<Rightarrow> bool \<Rightarrow> GraphDocument \<Rightarrow> Options \<Rightarrow> Kuzu \<Rightarrow> error option \<times> Kuzu" where
  "processBatch eng ctxDone doc opts k =
     (case forEach (\<lambda>(nodeType, nodes) k.
                      wrapErr (''failed to batch insert nodes of type '' @ nodeType)
                        (batchInsertNodesByType eng ctxDone nodeType nodes k))
                   (groupNodes (doc_Nodes doc)) k of
        (Some err, k1) \<Rightarrow> (Some err, k1)
      | (None, k1) \<Rightarrow>
          (case (if IncludeSource opts
                 then wrapErr ''failed to batch link nodes to source''
                        (batchLinkNodesToSource eng ctxDone (doc_Nodes doc) doc k1)
                 else (None, k1)) of
             (Some err, k2) \<Rightarrow> (Some err, k2)
           | (None, k2) \<Rightarrow>
               forEach (\<lambda>rels k. wrapErr ''failed to batch insert relationships''
                                    (batchInsertRelationships eng ctxDone rels k))
                 (map snd (groupRelationships (doc_Relationships doc))) k2))"

definition processGraphDocument ::
  "golib \<Rightarrow> engine \<Rightarrow> bool \<Rightarrow> GraphDocument \<Rightarrow> Options \<Rightarrow> Kuzu \<Rightarrow> error option \<times> Kuzu" where
  "processGraphDocument lib eng ctxDone doc opts k =
     (case validateGraphDocument doc of
        Some err \<Rightarrow> (Some (ErrWrap ''document validation failed'' err), k)
      | None \<Rightarrow>
          (case ensureTablesExist eng doc k of
             (Some err, k1) \<Rightarrow> (Some err, k1)
           | (None, k1) \<Rightarrow>
               if length (doc_Nodes doc) > 10 \<or> length (doc_Relationships doc) > 10
               then processBatch eng ctxDone doc opts k1
               else processIndividually lib eng doc opts k1))"

definition AddGraphDocument ::
  "golib \<Rightarrow> engine \<Rightarrow> bool \<Rightarrow> GraphDocument list \<Rightarrow> (Options \<Rightarrow> Options) list \<Rightarrow> Kuzu \<Rightarrow>
   error option \<times> Kuzu" where
  "AddGraphDocument lib eng ctxDone docs options k =
     (if \<not> connected k then (Some ErrConnectionNotInitialized, k)
      else
        let opts = fold (\<lambda>opt acc. opt acc) options NewOptions
        in forEach (\<lambda>doc k. processGraphDocument lib eng ctxDone doc opts k) docs k)"

text \<open>The same under a transaction: every write goes through the handle.\<close>

definition processIndividuallyInTransaction ::
  "golib \<Rightarrow> engine \<Rightarrow> GraphDocument \<Rightarrow> Options \<Rightarrow> Kuzu \<times> Transaction \<Rightarrow>
   error option \<times> Kuzu \<times> Transaction" where
  "processIndividuallyInTransaction lib eng doc opts kt =
     (case forEach (addNodeInTransaction lib eng) (doc_Nodes doc) kt of
        (Some err, kt1) \<Rightarrow> (Some err, kt1)
      | (None, kt1) \<Rightarrow> forEach (addRelationshipInTransaction lib eng) (doc_Relationships doc) kt1)"

definition processBatchInTransaction ::
  "engine \<Rightarrow> GraphDocument \<Rightarrow> Options \<Rightarrow> Kuzu \<times> Transaction \<Rightarrow> error option \<times> Kuzu \<times> Transaction" where
  "processBatchInTransaction eng doc opts kt =
     (case forEach (\<lambda>(nodeType, nodes) kt.
                      wrapErr (''failed to batch insert nodes of type '' @ nodeType)
                        (batchInsertNodesByTypeInTransaction eng nodeType nodes kt))
                   (groupNodes (doc_Nodes doc)) kt of
        (Some err, kt1) \<Rightarrow> (Some err, kt1)
      | (None, kt1) \<Rightarrow>
          forEach (\<lambda>rels kt. wrapErr ''failed to batch insert relationships''
                                (batchInsertRelationshipsInTransaction eng rels kt))
            (map snd (groupRelationships (doc_Relationships doc))) kt1)"

text \<open>The table creators change the store only; here they run beside a handle.\<close>

definition onStore ::
  "(Kuzu \<Rightarrow> error option \<times> Kuzu) \<Rightarrow> Kuzu \<times> Transaction \<Rightarrow> error option \<times> Kuzu \<times> Transaction" where
  "onStore f kt = (case kt of (k, tx) \<Rightarrow> (case f k of (r, k') \<Rightarrow> (r, k', tx)))"

definition processGraphDocumentInTransaction ::
  "golib \<Rightarrow> engine \<Rightarrow> GraphDocument \<Rightarrow> Options \<Rightarrow> Kuzu \<times> Transaction \<Rightarrow>
   error option \<times> Kuzu \<times> Transaction" where
  "processGraphDocumentInTransaction lib eng doc opts kt =
     (case onStore (ensureTablesExist eng doc) kt of
        (Some err, kt1) \<Rightarrow> (Some err, kt1)
      | (None, kt1) \<Rightarrow>
          if length (doc_Nodes doc) > 10 \<or> length (doc_Relationships doc) > 10
          then processBatchInTransaction eng doc opts kt1
          else processIndividuallyInTransaction lib eng doc opts kt1)"

fun validateDocuments :: "nat \<Rightarrow> GraphDocument list \<Rightarrow> error option" where
  "validateDocuments i [] = None"
| "validateDocuments i (doc # rest) =
     (case validateGraphDocument doc of
        Some err \<Rightarrow> Some (ErrWrap (''document '' @ showNat i @ '' validation failed'') err)
      | None \<Rightarrow> validateDocuments (i + 1) rest)"

definition processDocumentBatchInTransaction ::
  "golib \<Rightarrow> engine \<Rightarrow> Options \<Rightarrow> GraphDocument list \<Rightarrow> Kuzu \<times> Transaction \<Rightarrow>
   error option \<times> Kuzu \<times> Transaction" where
  "processDocumentBatchInTransaction lib eng opts docs kt =
     (case validateDocuments 0 docs of
        Some err \<Rightarrow> (Some err, kt)
      | None \<Rightarrow>
          let allNodeTypes = fold (\<lambda>doc m. nodeTypesOf (doc_Nodes doc) m) docs [];
              allRelPatterns = fold (\<lambda>doc m. relPatternsOf (doc_Relationships doc) m) docs []
          in (case wrapErr ''failed to create tables for batch''
                     (onStore (ensureTablesForBatch eng allNodeTypes allRelPatterns) kt) of
                (Some err, kt1) \<Rightarrow> (Some err, kt1)
              | (None, kt1) \<Rightarrow>
                  forEach (\<lambda>doc kt. wrapErr ''failed to process document''
                                       (processGraphDocumentInTransaction lib eng doc opts kt))
                    docs kt1))"

definition addGraphDocumentsInTransaction ::
  "golib \<Rightarrow> engine \<Rightarrow> GraphDocument list \<Rightarrow> Options \<Rightarrow> Kuzu \<times> Transaction \<Rightarrow>
   error option \<times> Kuzu \<times> Transaction" where
  "addGraphDocumentsInTransaction lib eng docs opts kt =
     chunked 10 (\<lambda>i e. ''failed to process document batch '' @ showNat i @ ''-'' @ showNat e)
       (processDocumentBatchInTransaction lib eng opts) 0 docs kt"

definition AddGraphDocumentsWithTransaction ::
  "golib \<Rightarrow> engine \<Rightarrow> GraphDocument list \<Rightarrow> (Options \<Rightarrow> Options) list \<Rightarrow> Kuzu \<times> Transaction \<Rightarrow>
   error option \<times> Kuzu \<times> Transaction" where
  "AddGraphDocumentsWithTransaction lib eng docs options kt =
     (if docs = [] then (None, kt)
      else addGraphDocumentsInTransaction lib eng docs (fold (\<lambda>opt acc. opt acc) options NewOptions) kt)"

definition AddGraphDocuments ::
  "golib \<Rightarrow> engine \<Rightarrow> bool \<Rightarrow> GraphDocument list \<Rightarrow> (Options \<Rightarrow> Options) list \<Rightarrow> Kuzu \<Rightarrow>
   error option \<times> Kuzu \<times> Transaction option" where
  "AddGraphDocuments lib eng ctxDone docs options k =
     (if docs = [] then (None, k, None)
      else RunInTransaction eng ctxDone k
             (addGraphDocumentsInTransaction lib eng docs (fold (\<lambda>opt acc. opt acc) options NewOptions))
             [WithReadOnly False])"

section \<open>Observations and examples\<close>

text \<open>
  A sequence of calls of \<open>createNodeTable\<close>, one per node type of the list, each on
  the store the previous one left (an import that fails stops, and the next import
  calls again). \<open>issuedFor\<close> counts the calls for the type \<open>T\<close> that hand a statement
  to the engine.
\<close>

fun issuedFor :: "engine \<Rightarrow> string \<Rightarrow> string list \<Rightarrow> Kuzu \<Rightarrow> nat" where
  "issuedFor eng T [] k = 0"
| "issuedFor eng T (nodeType # rest) k =
     (let k' = snd (createNodeTable eng nodeType k) in
      (if nodeType = T \<and> length (executed k) < length (executed k') then 1 else 0) +
      issuedFor eng T rest k')"

text \<open>The properties of a node without the entries under the reserved keys.\<close>

definition stripReserved :: "Node \<Rightarrow> Node" where
  "stripReserved node =
     node\<lparr>node_Properties := filter (\<lambda>e. fst e \<noteq> ''id'' \<and> fst e \<noteq> ''type'') (node_Properties node)\<rparr>"






text \<open>Documents for the examples.\<close>

definition personNode :: "string \<Rightarrow> (string \<times> goValue) list \<Rightarrow> Node" where
  "personNode ident props = \<lparr>node_ID = ident, node_Type = ''Person'', node_Properties = props\<rparr>"

definition docOf :: "Node list \<Rightarrow> GraphDocument" where
  "docOf nodes = \<lparr>doc_Source = \<lparr>PageContent = '''', Metadata = []\<rparr>, doc_Nodes = nodes,
                   doc_Relationships = []\<rparr>"

definition goodDoc :: GraphDocument where
  "goodDoc = docOf [personNode ''alice'' []]"

definition badDoc :: GraphDocument where
  "badDoc = docOf [personNode '''' []]"


text \<open>
  Names for the proofs about the single writers: an entry whose key is not reserved,
  the value a property has after \<open>ConvertProperties\<close>, and the text \<open>addNode\<close> sends
  for a value.
\<close>

definition nonReserved :: "string \<times> 'v \<Rightarrow> bool" where
  "nonReserved e = (fst e \<noteq> ''id'' \<and> fst e \<noteq> ''type'')"

definition converted :: "golib \<Rightarrow> goValue \<Rightarrow> goValue" where
  "converted lib v = fst (projr (ConvertGoValueToKuzu lib NewTypeConverter v))"

definition rendered :: "golib \<Rightarrow> goValue \<Rightarrow> string" where
  "rendered lib val =
     (case ConvertGoValueToKuzu lib NewTypeConverter val of
        Inl convErr \<Rightarrow> fmtV lib val
      | Inr (convertedValue, _) \<Rightarrow> fmtV lib convertedValue)"

section \<open>Properties of deduplication\<close>

lemma filter_enumerate_Suc:
  "filter P (enumerate (Suc 0) xs) = map (apfst Suc) (filter (P \<circ> apfst Suc) (enumerate 0 xs))"
  by (simp add: enumerate_Suc_eq filter_map)

lemma DeduplicateNodes_loop_eq:
  "DeduplicateNodes_loop seen result ns =
     result @ map snd (filter (\<lambda>(i, n). \<not> seen (node_ID n) \<and> node_ID n \<notin> node_ID ` set (take i ns))
       (enumerate 0 ns))"
proof (induction ns arbitrary: seen result)
  case Nil
  then show ?case by simp
next
  case (Cons n ns)
  show ?case
    by (auto simp: Cons.IH filter_enumerate_Suc comp_def case_prod_beta
          intro!: arg_cong[where f="map snd"] filter_cong)
qed


lemma DeduplicateNodes_firstOccurrences: "DeduplicateNodes ns = firstOccurrences node_ID ns"
  by (simp add: DeduplicateNodes_def firstOccurrences_def DeduplicateNodes_loop_eq)


lemma firstOccurrences_Nil: "firstOccurrences key [] = []"
  by (simp add: firstOccurrences_def)

lemma firstOccurrences_Cons:
  "firstOccurrences key (x # xs) = x # filter (\<lambda>y. key y \<noteq> key x) (firstOccurrences key xs)"
  by (auto simp: firstOccurrences_def filter_enumerate_Suc comp_def case_prod_beta filter_map
        intro!: arg_cong[where f="map snd"] filter_cong)

lemma image_filter_neq: "f ` {y \<in> A. f y \<noteq> k} = f ` A - {k}"
  by auto

lemma set_firstOccurrences: "key ` set (firstOccurrences key xs) = key ` set xs"
proof (induction xs)
  case Nil
  show ?case by (simp add: firstOccurrences_Nil)
next
  case (Cons x xs)
  have "key ` set (firstOccurrences key (x # xs)) =
        insert (key x) (key ` set (firstOccurrences key xs) - {key x})"
    by (simp add: firstOccurrences_Cons image_filter_neq)
  also have "\<dots> = insert (key x) (key ` set xs)"
    by (simp add: Cons.IH)
  finally show ?case by simp
qed

lemma subseq_firstOccurrences: "subseq (firstOccurrences key xs) xs"
proof (induction xs)
  case Nil
  show ?case by (simp add: firstOccurrences_Nil)
next
  case (Cons x xs)
  have "subseq (filter (\<lambda>y. key y \<noteq> key x) (firstOccurrences key xs)) (firstOccurrences key xs)"
    by simp
  then have "subseq (filter (\<lambda>y. key y \<noteq> key x) (firstOccurrences key xs)) xs"
    using Cons.IH by (rule subseq_order.order_trans)
  then show ?case by (simp add: firstOccurrences_Cons)
qed

lemma distinct_firstOccurrences: "distinct (map key (firstOccurrences key xs))"
proof (induction xs)
  case Nil
  show ?case by (simp add: firstOccurrences_Nil)
next
  case (Cons x xs)
  then show ?case
    by (auto simp: firstOccurrences_Cons distinct_map_filter)
qed

lemma firstOccurrences_distinct: "distinct (map key xs) \<Longrightarrow> firstOccurrences key xs = xs"
proof (induction xs)
  case Nil
  show ?case by (simp add: firstOccurrences_Nil)
next
  case (Cons x xs)
  from Cons.prems have "key x \<notin> key ` set xs" by simp
  then have "\<forall>y\<in>set xs. key y \<noteq> key x" by (metis imageI)
  then have "filter (\<lambda>y. key y \<noteq> key x) xs = xs"
    by (simp add: filter_id_conv)
  with Cons show ?case by (simp add: firstOccurrences_Cons)
qed

lemma firstOccurrences_idem:
  "firstOccurrences key (firstOccurrences key xs) = firstOccurrences key xs"
  by (simp add: firstOccurrences_distinct distinct_firstOccurrences)





text \<open>
  C9. \<open>DeduplicateNodes\<close> returns exactly the nodes whose id does not occur earlier in
  the list (the first occurrence of each id), in the order of the list: the result is a
  subsequence of the input, its ids are pairwise different and are all the ids of the
  input. Applying it twice is the same as applying it once.
\<close>

theorem C9_DeduplicateNodes_first_occurrences_idempotent:
  "DeduplicateNodes ns = firstOccurrences node_ID ns \<and>
   subseq (DeduplicateNodes ns) ns \<and>
   distinct (map node_ID (DeduplicateNodes ns)) \<and>
   node_ID ` set (DeduplicateNodes ns) = node_ID ` set ns \<and>
   DeduplicateNodes (DeduplicateNodes ns) = DeduplicateNodes ns"
  by (simp add: DeduplicateNodes_firstOccurrences subseq_firstOccurrences
        distinct_firstOccurrences set_firstOccurrences firstOccurrences_idem)



section \<open>Properties of transactions\<close>

text \<open>
  C5. On a handle in a terminal state (Committed or RolledBack), \<open>Commit\<close> and
  \<open>Rollback\<close> return an error and change neither the handle nor the store; \<open>Commit\<close>
  on a Failed handle returns an error and leaves it Failed. A \<open>Commit\<close> on an Active
  handle succeeds and leaves it Committed, and a second \<open>Commit\<close> then returns an error
  without any further change.
\<close>

theorem C5_terminal_states_reject_commit_and_rollback:
  "(tx_state tx = TransactionCommitted \<or> tx_state tx = TransactionRolledBack \<longrightarrow>
      Commit eng (k, tx) = (Some (ErrTxNotActive (tx_state tx)), k, tx) \<and>
      Rollback eng (k, tx) = (Some (ErrTxCannotRollback (tx_state tx)), k, tx)) \<and>
   (tx_state tx = TransactionFailed \<longrightarrow>
      Commit eng (k, tx) = (Some (ErrTxNotActive TransactionFailed), k, tx)) \<and>
   (tx_state tx = TransactionActive \<longrightarrow>
      (case Commit eng (k, tx) of (r, k1, tx1) \<Rightarrow>
         r = None \<and> tx_state tx1 = TransactionCommitted \<and>
         Commit eng (k1, tx1) = (Some (ErrTxNotActive TransactionCommitted), k1, tx1)))"
  by (auto simp: Commit_def Rollback_def IsActive_def GetState_def Let_def)

theorem C5_witness_committed_handle:
  "Commit (\<lambda>_ _. True) (k0, tx0\<lparr>tx_state := TransactionCommitted\<rparr>) =
     (Some (ErrTxNotActive TransactionCommitted), k0, tx0\<lparr>tx_state := TransactionCommitted\<rparr>) \<and>
   Rollback (\<lambda>_ _. True) (k0, tx0\<lparr>tx_state := TransactionCommitted\<rparr>) =
     (Some (ErrTxCannotRollback TransactionCommitted), k0, tx0\<lparr>tx_state := TransactionCommitted\<rparr>) \<and>
   Commit (\<lambda>_ _. True) (k0, tx0\<lparr>tx_state := TransactionFailed\<rparr>) =
     (Some (ErrTxNotActive TransactionFailed), k0, tx0\<lparr>tx_state := TransactionFailed\<rparr>) \<and>
   Commit (\<lambda>_ _. True) (k0, tx0) =
     (None, k0\<lparr>executed := [(QCommit, PNone)]\<rparr>,
      tx0\<lparr>tx_state := TransactionCommitted, tx_ctxDone := True\<rparr>) \<and>
   Commit (\<lambda>_ _. True)
     (k0\<lparr>executed := [(QCommit, PNone)]\<rparr>,
      tx0\<lparr>tx_state := TransactionCommitted, tx_ctxDone := True\<rparr>) =
     (Some (ErrTxNotActive TransactionCommitted), k0\<lparr>executed := [(QCommit, PNone)]\<rparr>,
      tx0\<lparr>tx_state := TransactionCommitted, tx_ctxDone := True\<rparr>)"
proof -
  have active: "Commit (\<lambda>_ _. True) (k0, tx0) =
     (None, k0\<lparr>executed := [(QCommit, PNone)]\<rparr>,
      tx0\<lparr>tx_state := TransactionCommitted, tx_ctxDone := True\<rparr>)"
    by (simp add: Commit_def IsActive_def GetState_def Query_def engineRun_def k0_def tx0_def)
  show ?thesis
    using C5_terminal_states_reject_commit_and_rollback
            [of "tx0\<lparr>tx_state := TransactionCommitted\<rparr>" "\<lambda>_ _. True" k0]
          C5_terminal_states_reject_commit_and_rollback
            [of "tx0\<lparr>tx_state := TransactionFailed\<rparr>" "\<lambda>_ _. True" k0]
          C5_terminal_states_reject_commit_and_rollback [of tx0 "\<lambda>_ _. True" k0]
    by (simp add: active) (simp add: tx0_def)
qed

text \<open>
  C4. When \<open>BeginTransaction\<close> gave a handle, the caller's function returns an error
  and leaves the handle Active or Failed, \<open>RunInTransaction\<close> returns exactly that
  error and the handle ends RolledBack; the only further effect on the store is the
  rollback statement.
\<close>

theorem C4_RunInTransaction_failing_fn_rolls_back:
  assumes "BeginTransaction eng ctxDone k opts = Inr kt"
    and "fn kt = (Some err, k1, tx1)"
    and "tx_state tx1 = TransactionActive \<or> tx_state tx1 = TransactionFailed"
  shows "RunInTransaction eng ctxDone k fn opts =
           (Some err,
            snd (Query eng (tx_ctxDone tx1) k1 QRollback PNone),
            Some (tx1\<lparr>tx_state := TransactionRolledBack, tx_ctxDone := True\<rparr>))"
  using assms
  by (auto simp: RunInTransaction_def Rollback_def Close_def GetState_def Let_def)

theorem C4_witness_failed_handle:
  "RunInTransaction (\<lambda>_ _. True) False k0
      (\<lambda>(k, tx). (Some (ErrCaller ''boom''), k, tx\<lparr>tx_state := TransactionFailed\<rparr>)) [] =
   (Some (ErrCaller ''boom''),
    k0\<lparr>executed := [(QBegin, PNone), (QRollback, PNone)]\<rparr>,
    Some (tx0\<lparr>tx_state := TransactionRolledBack, tx_ctxDone := True\<rparr>))"
proof -
  have b: "BeginTransaction (\<lambda>_ _. True) False k0 [] = Inr (k0\<lparr>executed := [(QBegin, PNone)]\<rparr>, tx0)"
    by (simp add: BeginTransaction_def k0_def tx0_def Query_def engineRun_def getCurrentTimestamp_def)
  show ?thesis
    using C4_RunInTransaction_failing_fn_rolls_back
            [OF b, of "\<lambda>(k, tx). (Some (ErrCaller ''boom''), k, tx\<lparr>tx_state := TransactionFailed\<rparr>)"
              "ErrCaller ''boom''" "k0\<lparr>executed := [(QBegin, PNone)]\<rparr>"
              "tx0\<lparr>tx_state := TransactionFailed\<rparr>"]
    by (simp add: Query_def engineRun_def tx0_def k0_def)
qed

section \<open>Properties of the schema version\<close>

text \<open>
  C6. The schema that \<open>updateStructuredSchema\<close> stores is a map with three keys. When
  the loop of \<open>GetSchemaVersion\<close> visits them in the order node types, relationship
  types, total, the version is \<open>v10180\<close>; when it visits the same three entries in the
  opposite order, the version is \<open>v12100\<close>. The fold is sensitive to the order of the
  visit, which Go does not fix for a map, so two calls over one snapshot can differ.
\<close>

theorem C6_GetSchemaVersion_depends_on_visit_order:
  "GetSchemaVersion (updateStructuredSchema nt rt) = ''v10180'' \<and>
   GetSchemaVersion (rev (updateStructuredSchema nt rt)) = ''v12100''"
  by (simp add: GetSchemaVersion_def updateStructuredSchema_def Let_def showInt_def)

section \<open>Properties of the type conversion\<close>




text \<open>
  The narrower widths are passed to the engine as they are, and the conversion back
  accepts a signed integer only as \<open>int64\<close>, an unsigned one only as \<open>uint64\<close> or
  \<open>int64\<close>, a float only as \<open>float64\<close> or \<open>int64\<close>: on them the round trip ends
  in a conversion error.
\<close>

lemma roundTrip_narrow_widths:
  "roundTrip lib tc (VInt8 i8) = Inl (ErrMsg (''cannot convert '' @ fmtT lib (VInt8 i8) @ '' to int''))"
  "roundTrip lib tc (VInt16 i16) = Inl (ErrMsg (''cannot convert '' @ fmtT lib (VInt16 i16) @ '' to int''))"
  "roundTrip lib tc (VInt32 i32) = Inl (ErrMsg (''cannot convert '' @ fmtT lib (VInt32 i32) @ '' to int''))"
  "roundTrip lib tc (VUint8 u8) = Inl (ErrMsg (''cannot convert '' @ fmtT lib (VUint8 u8) @ '' to uint''))"
  "roundTrip lib tc (VUint16 u16) = Inl (ErrMsg (''cannot convert '' @ fmtT lib (VUint16 u16) @ '' to uint''))"
  "roundTrip lib tc (VUint32 u32) = Inl (ErrMsg (''cannot convert '' @ fmtT lib (VUint32 u32) @ '' to uint''))"
  "roundTrip lib tc (VFloat32 f32) = Inl (ErrMsg (''cannot convert '' @ fmtT lib (VFloat32 f32) @ '' to float''))"
  by (simp_all add: roundTrip_def ConvertKuzuValueToGo_def convertKuzuInt_def convertKuzuUint_def
        convertKuzuFloat_def)

section \<open>Properties of table creation\<close>

lemma createNodeTable_cached: "nodeTables k T \<Longrightarrow> createNodeTable eng T k = (None, k)"
  by (simp add: createNodeTable_def)

lemma createNodeTable_keeps_cache:
  "nodeTables k T \<Longrightarrow> nodeTables (snd (createNodeTable eng t k)) T"
  by (auto simp: createNodeTable_def engineRun_def split: if_splits bool.splits prod.splits)

lemma createNodeTable_success_caches:
  "createNodeTable eng T k = (None, k') \<Longrightarrow> nodeTables k' T"
  by (auto simp: createNodeTable_def engineRun_def split: if_splits bool.splits)

lemma issuedFor_cached: "nodeTables k T \<Longrightarrow> issuedFor eng T ts k = 0"
proof (induction ts arbitrary: k)
  case Nil
  show ?case by simp
next
  case (Cons t ts)
  have keep: "nodeTables (snd (createNodeTable eng t k)) T"
    using Cons.prems by (rule createNodeTable_keeps_cache)
  show ?case
  proof (cases "t = T")
    case True
    then show ?thesis
      using Cons.prems Cons.IH [OF keep] by (simp add: createNodeTable_cached Let_def)
  next
    case False
    then show ?thesis
      using Cons.IH [OF keep] by (simp add: Let_def)
  qed
qed

lemma issuedFor_accepting:
  assumes acc: "\<And>h. eng h (QCreateNodeTable (sanitizeIdentifier T), PNone)"
  shows "issuedFor eng T ts k \<le> 1"
proof (induction ts arbitrary: k)
  case Nil
  show ?case by simp
next
  case (Cons t ts)
  show ?case
  proof (cases "t = T \<and> length (executed k) < length (executed (snd (createNodeTable eng t k)))")
    case True
    then have "nodeTables (snd (createNodeTable eng T k)) T"
      using acc by (auto simp: createNodeTable_def engineRun_def split: if_splits)
    then have "issuedFor eng T ts (snd (createNodeTable eng T k)) = 0"
      by (rule issuedFor_cached)
    with True show ?thesis by (simp add: Let_def)
  next
    case False
    then show ?thesis using Cons.IH by (auto simp: Let_def)
  qed
qed

text \<open>
  C7, as stated, fails when the engine rejects the statement: the cache is written only
  after a success, so a second call for the same type hands the statement to the engine
  again. Here two calls for \<open>Person\<close> on an engine that rejects everything leave two
  create-node-table statements in the list of executed statements.
\<close>

theorem C7_rejected_DDL_is_issued_again:
  "issuedFor (\<lambda>_ _. False) ''Person'' [''Person'', ''Person''] k0 = 2 \<and>
   executed (snd (createNodeTable (\<lambda>_ _. False) ''Person''
              (snd (createNodeTable (\<lambda>_ _. False) ''Person'' k0)))) =
     [(QCreateNodeTable ''Person'', PNone), (QCreateNodeTable ''Person'', PNone)]"
  by (simp add: createNodeTable_def engineRun_def k0_def sanitizeIdentifier_def replaceAll_def
        isLetter_def Let_def)

text \<open>
  C7, amended. Once the cache records the node type \<open>T\<close>, \<open>createNodeTable\<close> for
  \<open>T\<close> returns without an error and without touching the store or the engine, and
  no later call for \<open>T\<close> in any sequence of calls issues a statement; a call for \<open>T\<close>
  that returns without an error leaves \<open>T\<close> recorded; so on an engine that accepts the
  create-node-table statement of \<open>T\<close>, any sequence of calls issues it at most once.
\<close>

theorem C7_cached_type_issues_no_DDL:
  "(nodeTables k T \<longrightarrow> createNodeTable eng T k = (None, k) \<and> issuedFor eng T ts k = 0) \<and>
   (createNodeTable eng T k = (None, k') \<longrightarrow> nodeTables k' T) \<and>
   ((\<forall>h. eng h (QCreateNodeTable (sanitizeIdentifier T), PNone)) \<longrightarrow> issuedFor eng T ts k \<le> 1)"
proof (intro conjI impI)
  assume "nodeTables k T"
  then show "createNodeTable eng T k = (None, k)" by (rule createNodeTable_cached)
next
  assume "nodeTables k T"
  then show "issuedFor eng T ts k = 0" by (rule issuedFor_cached)
next
  assume "createNodeTable eng T k = (None, k')"
  then show "nodeTables k' T" by (rule createNodeTable_success_caches)
next
  assume "\<forall>h. eng h (QCreateNodeTable (sanitizeIdentifier T), PNone)"
  then show "issuedFor eng T ts k \<le> 1" by (intro issuedFor_accepting) simp
qed

theorem C7_witness_three_calls_one_DDL:
  "createNodeTable (\<lambda>_ _. True) ''Person'' (k0\<lparr>nodeTables := (\<lambda>t. t = ''Person'')\<rparr>) =
     (None, k0\<lparr>nodeTables := (\<lambda>t. t = ''Person'')\<rparr>) \<and>
   issuedFor (\<lambda>_ _. True) ''Person'' [''Person'', ''Person'', ''Person'']
     (k0\<lparr>nodeTables := (\<lambda>t. t = ''Person'')\<rparr>) = 0 \<and>
   issuedFor (\<lambda>_ _. True) ''Person'' [''Person'', ''Person'', ''Person''] k0 \<le> 1 \<and>
   issuedFor (\<lambda>_ _. True) ''Person'' [''Person'', ''Person'', ''Person''] k0 = 1"
  using C7_cached_type_issues_no_DDL
          [of "k0\<lparr>nodeTables := (\<lambda>t. t = ''Person'')\<rparr>" "''Person''" "\<lambda>_ _. True"
              "[''Person'', ''Person'', ''Person'']" "k0\<lparr>nodeTables := (\<lambda>t. t = ''Person'')\<rparr>"]
        C7_cached_type_issues_no_DDL
          [of k0 "''Person''" "\<lambda>_ _. True" "[''Person'', ''Person'', ''Person'']" k0]
  by (simp add: createNodeTable_def engineRun_def k0_def sanitizeIdentifier_def replaceAll_def
        isLetter_def Let_def)

section \<open>Properties of the single writers\<close>

lemma convert_total:
  "\<not> StrictMode tc \<Longrightarrow> \<not> isl (ConvertGoValueToKuzu lib tc v)"
  "\<not> StrictMode tc \<Longrightarrow> \<not> isl (convertSlice_loop lib tc i et acc items)"
  "\<not> StrictMode tc \<Longrightarrow> \<not> isl (convertMap_loop lib tc accm m)"
  "\<not> StrictMode tc \<Longrightarrow> \<not> isl (convertStruct_loop lib tc accs fs)"
proof (induction lib tc v and lib tc i et acc items and lib tc accm m and lib tc accs fs
       rule: ConvertGoValueToKuzu_convertSlice_loop_convertMap_loop_convertStruct_loop.induct)
qed (auto split: option.splits sum.splits if_splits prod.splits)

lemma convert_default:
  "ConvertGoValueToKuzu lib NewTypeConverter v =
     Inr (converted lib v, snd (projr (ConvertGoValueToKuzu lib NewTypeConverter v)))"
proof -
  have "\<not> isl (ConvertGoValueToKuzu lib NewTypeConverter v)"
    by (rule convert_total) (simp add: NewTypeConverter_def)
  then show ?thesis
    by (cases "ConvertGoValueToKuzu lib NewTypeConverter v") (auto simp: converted_def)
qed

lemma ConvertProperties_loop_eq:
  "ConvertProperties_loop lib acc ps =
     Inr (fold (\<lambda>e m. mapInsert (fst e) (converted lib (snd e)) m) ps acc)"
proof (induction ps arbitrary: acc)
  case Nil
  show ?case by simp
next
  case (Cons p ps)
  obtain key val where p: "p = (key, val)" by (cases p)
  show ?case
    unfolding p
    by (subst ConvertProperties_loop.simps, subst convert_default) (simp add: Cons.IH)
qed

lemma filter_mapInsert:
  "filter nonReserved (mapInsert key v m) =
     (if nonReserved (key, v) then mapInsert key v (filter nonReserved m) else filter nonReserved m)"
proof -
  have a: "filter nonReserved (map (\<lambda>e. if fst e = key then (key, v) else e) m) =
           map (\<lambda>e. if fst e = key then (key, v) else e) (filter nonReserved m)"
    by (induction m) (auto simp: nonReserved_def)
  have b: "\<not> nonReserved (key, v) \<Longrightarrow>
           filter nonReserved (map (\<lambda>e. if fst e = key then (key, v) else e) m) = filter nonReserved m"
    by (induction m) (auto simp: nonReserved_def)
  have c: "nonReserved (key, v) \<Longrightarrow> key \<in> fst ` set (filter nonReserved m) \<longleftrightarrow> key \<in> fst ` set m"
    by (force simp: nonReserved_def)
  show ?thesis
  proof (cases "nonReserved (key, v)")
    case True
    then show ?thesis using a c by (simp add: mapInsert_def)
  next
    case False
    then show ?thesis using b by (simp add: mapInsert_def)
  qed
qed

lemma filter_fold_mapInsert:
  "filter nonReserved (fold (\<lambda>e m. mapInsert (fst e) (f (snd e)) m) ps acc) =
     fold (\<lambda>e m. mapInsert (fst e) (f (snd e)) m) (filter nonReserved ps) (filter nonReserved acc)"
proof (induction ps arbitrary: acc)
  case Nil
  show ?case by simp
next
  case (Cons p ps)
  show ?case
    by (simp add: Cons.IH filter_mapInsert) (simp add: nonReserved_def)
qed

lemma filter_fold_filter:
  "filter nonReserved (fold (\<lambda>e m. mapInsert (fst e) (f (snd e)) m) (filter nonReserved ps) []) =
   filter nonReserved (fold (\<lambda>e m. mapInsert (fst e) (f (snd e)) m) ps [])"
  by (simp add: filter_fold_mapInsert)

lemma addNode_props_eq:
  "addNode_props lib ps (ks, vs) =
     (ks @ map fst (filter nonReserved ps), vs @ map (\<lambda>e. rendered lib (snd e)) (filter nonReserved ps))"
proof (induction ps arbitrary: ks vs)
  case Nil
  show ?case by simp
next
  case (Cons p ps)
  obtain key val where p: "p = (key, val)" by (cases p)
  show ?case
    by (auto simp: p Cons.IH nonReserved_def rendered_def split: sum.splits)
qed

lemma addNodeInTransaction_props_eq:
  "addNodeInTransaction_props lib ps (ks, vs) =
     (ks @ map fst (filter nonReserved ps), vs @ map (\<lambda>e. fmtV lib (snd e)) (filter nonReserved ps))"
proof (induction ps arbitrary: ks vs)
  case Nil
  show ?case by simp
next
  case (Cons p ps)
  obtain key val where p: "p = (key, val)" by (cases p)
  show ?case
    by (simp add: p Cons.IH nonReserved_def)
qed

lemma stripReserved_props:
  "node_Properties (stripReserved node) = filter nonReserved (node_Properties node)"
  by (simp add: stripReserved_def nonReserved_def [abs_def])

lemma stripReserved_fields:
  "node_ID (stripReserved node) = node_ID node" "node_Type (stripReserved node) = node_Type node"
  by (simp_all add: stripReserved_def)

lemma addNode_strip: "addNode lib eng (stripReserved node) k = addNode lib eng node k"
  by (simp add: addNode_def ConvertProperties_def ConvertProperties_loop_eq addNode_props_eq
        stripReserved_props stripReserved_fields filter_fold_filter)

lemma addNodeInTransaction_strip:
  "addNodeInTransaction lib eng (stripReserved node) kt = addNodeInTransaction lib eng node kt"
  by (simp add: addNodeInTransaction_def addNodeInTransaction_props_eq
        stripReserved_props stripReserved_fields)

lemma no_reserved_keys:
  "''id'' \<notin> set (map fst (filter nonReserved ps))" "''type'' \<notin> set (map fst (filter nonReserved ps))"
  by (auto simp: nonReserved_def)

lemma addNode_statement:
  "executed (snd (addNode lib eng node k)) = executed k \<or>
   (\<exists>ks vs. executed (snd (addNode lib eng node k)) =
              executed k @ [(QMergeNode (sanitizeIdentifier (node_Type node)),
                             PNode (node_ID node) (node_Type node) ks vs)] \<and>
            ''id'' \<notin> set ks \<and> ''type'' \<notin> set ks)"
  using no_reserved_keys
  by (auto simp: addNode_def ConvertProperties_def ConvertProperties_loop_eq addNode_props_eq
        wrapErr_def runQuery_def Query_def engineRun_def split: prod.splits bool.splits)

lemma addNodeInTransaction_statement:
  "executed (fst (snd (addNodeInTransaction lib eng node (k, tx)))) = executed k \<or>
   (\<exists>ks vs. executed (fst (snd (addNodeInTransaction lib eng node (k, tx)))) =
              executed k @ [(QMergeNode (sanitizeIdentifier (node_Type node)),
                             PNode (node_ID node) (node_Type node) ks vs)] \<and>
            ''id'' \<notin> set ks \<and> ''type'' \<notin> set ks)"
  using no_reserved_keys
  by (auto simp: addNodeInTransaction_def addNodeInTransaction_props_eq
        wrapErr_def runTxQuery_def tx_Query_def Query_def engineRun_def Let_def
        split: prod.splits bool.splits sum.splits)

text \<open>
  C10. For every node, \<open>addNode\<close> and \<open>addNodeInTransaction\<close> behave exactly as on the
  node without its property entries under the keys \<open>id\<close> and \<open>type\<close>: same error or
  success, same store, same handle. Either writer hands at most one statement to the
  engine, the upsert of the node, and neither \<open>id\<close> nor \<open>type\<close> is among the property
  keys of that statement.
\<close>

theorem C10_single_writers_drop_reserved_keys:
  "addNode lib eng node k = addNode lib eng (stripReserved node) k \<and>
   addNodeInTransaction lib eng node (k, tx) = addNodeInTransaction lib eng (stripReserved node) (k, tx) \<and>
   (executed (snd (addNode lib eng node k)) = executed k \<or>
    (\<exists>ks vs. executed (snd (addNode lib eng node k)) =
               executed k @ [(QMergeNode (sanitizeIdentifier (node_Type node)),
                              PNode (node_ID node) (node_Type node) ks vs)] \<and>
             ''id'' \<notin> set ks \<and> ''type'' \<notin> set ks)) \<and>
   (executed (fst (snd (addNodeInTransaction lib eng node (k, tx)))) = executed k \<or>
    (\<exists>ks vs. executed (fst (snd (addNodeInTransaction lib eng node (k, tx)))) =
               executed k @ [(QMergeNode (sanitizeIdentifier (node_Type node)),
                              PNode (node_ID node) (node_Type node) ks vs)] \<and>
             ''id'' \<notin> set ks \<and> ''type'' \<notin> set ks))"
  using addNode_statement [of lib eng node k] addNodeInTransaction_statement [of lib eng node k tx]
  by (simp add: addNode_strip addNodeInTransaction_strip)

section \<open>Properties of the import entry points\<close>

lemmas pipeline_defs =
  AddGraphDocument_def processGraphDocument_def validateGraphDocument_def ensureTablesExist_def
  nodeTypesOf_def relPatternsOf_def mapInsert_def wrapErr_def createNodeTable_def
  createChunkNodeTable_def createMentionsRelationshipTable_def engineRun_def
  sanitizeIdentifier_def replaceAll_def isLetter_def processIndividually_def addNode_def
  ConvertProperties_def runQuery_def Query_def NewOptions_def goodDoc_def badDoc_def docOf_def
  personNode_def k0_def Let_def

lemmas tx_pipeline_defs =
  AddGraphDocumentsWithTransaction_def addGraphDocumentsInTransaction_def
  processDocumentBatchInTransaction_def ensureTablesForBatch_def onStore_def
  processGraphDocumentInTransaction_def processIndividuallyInTransaction_def
  addNodeInTransaction_def runTxQuery_def tx_Query_def IsActive_def GetState_def tx0_def


text \<open>
  What does hold: within one call of \<open>processDocumentBatchInTransaction\<close> (at most
  ten documents) an invalid document anywhere makes the call fail with the store and the
  handle untouched.
\<close>

lemma processDocumentBatchInTransaction_invalid:
  "validateDocuments 0 docs = Some err \<Longrightarrow>
   processDocumentBatchInTransaction lib eng opts docs kt = (Some err, kt)"
  by (simp add: processDocumentBatchInTransaction_def)

text \<open>
  C2. The import entry points do not validate the whole batch before the first write.
  \<open>AddGraphDocument\<close> validates each document just before it writes it: on a valid
  document followed by one whose node has an empty id it fails, after the tables and
  the node of the first document have been written. The transactional entry points
  validate ten documents at a time: on ten valid documents followed by an invalid one,
  \<open>AddGraphDocumentsWithTransaction\<close> fails after the ten nodes have been written.
\<close>

theorem C2_writes_precede_validation_of_later_documents:
  "fst (AddGraphDocument lib (\<lambda>_ _. True) False [goodDoc, badDoc] [] k0) =
     Some (ErrWrap ''document validation failed'' (ErrMsg ''node at index 0 has empty ID'')) \<and>
   executed (snd (AddGraphDocument lib (\<lambda>_ _. True) False [goodDoc, badDoc] [] k0)) =
     [(QCreateNodeTable ''Person'', PNone), (QCreateChunkTable, PNone), (QCreateMentionsTable, PNone),
      (QMergeNode ''Person'', PNode ''alice'' ''Person'' [] [])] \<and>
   fst (AddGraphDocumentsWithTransaction lib (\<lambda>_ _. True)
          [goodDoc, goodDoc, goodDoc, goodDoc, goodDoc, goodDoc, goodDoc, goodDoc, goodDoc, goodDoc,
           badDoc] [] (k0, tx0)) =
     Some (ErrWrap ''failed to process document batch 10-10''
            (ErrWrap ''document 0 validation failed'' (ErrMsg ''node at index 0 has empty ID''))) \<and>
   executed (fst (snd (AddGraphDocumentsWithTransaction lib (\<lambda>_ _. True)
          [goodDoc, goodDoc, goodDoc, goodDoc, goodDoc, goodDoc, goodDoc, goodDoc, goodDoc, goodDoc,
           badDoc] [] (k0, tx0)))) =
     [(QCreateNodeTable ''Person'', PNone), (QCreateChunkTable, PNone), (QCreateMentionsTable, PNone),
      (QMergeNode ''Person'', PNode ''alice'' ''Person'' [] []),
      (QMergeNode ''Person'', PNode ''alice'' ''Person'' [] []),
      (QMergeNode ''Person'', PNode ''alice'' ''Person'' [] []),
      (QMergeNode ''Person'', PNode ''alice'' ''Person'' [] []),
      (QMergeNode ''Person'', PNode ''alice'' ''Person'' [] []),
      (QMergeNode ''Person'', PNode ''alice'' ''Person'' [] []),
      (QMergeNode ''Person'', PNode ''alice'' ''Person'' [] []),
      (QMergeNode ''Person'', PNode ''alice'' ''Person'' [] []),
      (QMergeNode ''Person'', PNode ''alice'' ''Person'' [] []),
      (QMergeNode ''Person'', PNode ''alice'' ''Person'' [] [])]"
  by (simp add: pipeline_defs tx_pipeline_defs chunked.simps)


end
